theory Spec2Isabelle
  imports Complex_Main "HOL-Library.Sublist"
begin

section \<open>The hyperparameter tuning notebook (04_TuneHyperparameters.ipynb)\<close>

text \<open>
  The notebook is a straight-line Python program: its code cells run top to bottom. It
  assembles request objects (parameter dictionaries, an estimator, a search space, an
  early-termination policy, a HyperDrive configuration) and hands them to the Azure ML
  client library. The objects are modelled as records and datatypes, the dictionaries as
  association lists in the order the source writes them, and the calls into the client
  library as events of a trace (second half of the file).

  Python floats occur only as literals that are stored and compared with each other, never
  in arithmetic. They are modelled by the real number the decimal literal denotes; rounding
  to double precision is monotone and keeps the literals used here apart, so the order and
  the equalities stated below are the ones the floats have.
\<close>

subsection \<open>Values passed to the training script\<close>

record datastore =
  datastore_name :: string
  container_name :: string

text \<open>\<open>ds.as_mount()\<close>: a reference to the datastore, to be mounted on the compute.\<close>

datatype data_reference = DataReference datastore string

definition as_mount :: "datastore \<Rightarrow> data_reference" where
  "as_mount ds = DataReference ds ''mount''"

datatype param_value =
    DataRef data_reference
  | IntV int
  | FloatV real
  | StrV string

type_synonym params = "(string \<times> param_value) list"

text \<open>
  The dictionaries are keyed by the command-line flag, \<open>"--workers"\<close> for the parameter
  \<open>workers\<close>; the search space is keyed by the bare parameter name. \<open>flag\<close> is the flag
  spelling of a parameter name.
\<close>

definition flag :: "string \<Rightarrow> string" where
  "flag name = ''--'' @ name"

text \<open>The first \<open>script_params\<close> (the single training submission).\<close>

definition script_params :: "datastore \<Rightarrow> int \<Rightarrow> params" where
  "script_params ds num_epochs =
    [(''--data_path'', DataRef (as_mount ds)),
     (''--workers'', IntV 8),
     (''--learning_rate'', FloatV 0.005),
     (''--epochs'', IntV num_epochs),
     (''--anchor_sizes'', StrV ''16,32,64,128,256,512''),
     (''--anchor_aspect_ratios'', StrV ''0.25,0.5,1.0,2.0''),
     (''--rpn_nms_thresh'', FloatV 0.5),
     (''--box_nms_thresh'', FloatV 0.3),
     (''--box_score_thresh'', FloatV 0.10)]"

text \<open>The second \<open>script_params\<close> (the base job of the hyperparameter search).\<close>

definition script_params_tune :: "datastore \<Rightarrow> int \<Rightarrow> params" where
  "script_params_tune ds num_epochs =
    [(''--data_path'', DataRef (as_mount ds)),
     (''--workers'', IntV 8),
     (''--epochs'', IntV num_epochs),
     (''--box_nms_thresh'', FloatV 0.3),
     (''--box_score_thresh'', FloatV 0.10)]"

subsection \<open>The search space\<close>

datatype parameter_expression =
    uniform real real
  | choice "param_value list"

datatype sampling = RandomParameterSampling "(string \<times> parameter_expression) list"

definition param_sampling :: sampling where
  "param_sampling = RandomParameterSampling
    [(''learning_rate'', uniform 0.0005 0.005),
     (''rpn_nms_thresh'', uniform 0.3 0.7),
     (''anchor_sizes'', choice
        [StrV ''16'',
         StrV ''16,32'',
         StrV ''16,32,64'',
         StrV ''16,32,64,128'',
         StrV ''16,32,64,128,256'',
         StrV ''16,32,64,128,256,512'']),
     (''anchor_aspect_ratios'', choice
        [StrV ''0.25'', StrV ''0.25,0.5'', StrV ''0.25,0.5,1.0'', StrV ''0.25,0.5,1.0,2.0''])]"

fun parameter_space :: "sampling \<Rightarrow> (string \<times> parameter_expression) list" where
  "parameter_space (RandomParameterSampling space) = space"

text \<open>
  The sampler itself runs on the platform; the notebook only declares the space. What a
  declared expression lets the sampler return: \<open>uniform lo hi\<close> a float between \<open>lo\<close> and
  \<open>hi\<close>, \<open>choice\<close> one of the listed options. An assignment is drawn from a space when it
  gives every declared parameter, in turn, a value that its expression admits.
\<close>

fun admits :: "parameter_expression \<Rightarrow> param_value \<Rightarrow> bool" where
  "admits (uniform lo hi) (FloatV x) = (lo \<le> x \<and> x \<le> hi)"
| "admits (uniform lo hi) _ = False"
| "admits (choice options) v = (v \<in> set options)"

definition drawn_from :: "sampling \<Rightarrow> params \<Rightarrow> bool" where
  "drawn_from s a =
     list_all2 (\<lambda>decl asg. fst asg = fst decl \<and> admits (snd decl) (snd asg))
       (parameter_space s) a"

subsection \<open>Early termination and the search request\<close>

record bandit_policy =
  slack_factor :: real
  evaluation_interval :: int
  delay_evaluation :: int

definition BanditPolicy :: "real \<Rightarrow> int \<Rightarrow> int \<Rightarrow> bandit_policy" where
  "BanditPolicy sf ei de =
     \<lparr>slack_factor = sf, evaluation_interval = ei, delay_evaluation = de\<rparr>"

definition early_termination_policy :: bandit_policy where
  "early_termination_policy = BanditPolicy 0.15 2 2"

datatype primary_metric_goal = MAXIMIZE | MINIMIZE

datatype compute_target = ComputeTarget string

record container_registry =
  address :: "string option"
  username :: "string option"
  password :: "string option"

text \<open>
  The PyTorch estimator, with the keyword arguments the notebook passes and the
  environment variable it sets on the run configuration afterwards.
\<close>

record estimator =
  source_directory :: string
  est_script_params :: params
  est_compute_target :: compute_target
  entry_script :: string
  use_docker :: bool
  custom_docker_image :: "string option"
  image_registry_details :: container_registry
  user_managed :: bool
  use_gpu :: bool
  environment_variables :: "(string \<times> string) list"

definition PyTorch ::
  "params \<Rightarrow> compute_target \<Rightarrow> string option \<Rightarrow> container_registry \<Rightarrow> estimator" where
  "PyTorch sp ct image_name reg =
     \<lparr>source_directory = ''./torchdetect'',
      est_script_params = sp,
      est_compute_target = ct,
      entry_script = ''train.py'',
      use_docker = True,
      custom_docker_image = image_name,
      image_registry_details = reg,
      user_managed = True,
      use_gpu = True,
      environment_variables = [(''PYTHONPATH'', ''$PYTHONPATH:/cocoapi/PythonAPI/'')]\<rparr>"

record hyperdrive_cfg =
  hd_estimator :: estimator
  hyperparameter_sampling :: sampling
  policy :: bandit_policy
  primary_metric_name :: string
  primary_metric_goal :: primary_metric_goal
  max_total_runs :: int
  max_concurrent_runs :: int

definition hyperdrive_config :: "estimator \<Rightarrow> int \<Rightarrow> hyperdrive_cfg" where
  "hyperdrive_config est total_runs =
     \<lparr>hd_estimator = est,
      hyperparameter_sampling = param_sampling,
      policy = early_termination_policy,
      primary_metric_name = ''mAP@IoU=0.50'',
      primary_metric_goal = MAXIMIZE,
      max_total_runs = total_runs,
      max_concurrent_runs = 4\<rparr>"

section \<open>The workflow\<close>

subsection \<open>Calls, exceptions and the world\<close>

text \<open>
  Every statement that leaves the notebook (a client-library call, a file operation, a
  read or write of the .env file) is a \<open>call\<close>. What the platform does with a call is not
  in the notebook; the notebook only sees the call return or raise.
\<close>

record provisioning_cfg =
  vm_size :: string
  max_nodes :: nat

definition provisioning_configuration :: "string \<Rightarrow> nat \<Rightarrow> provisioning_cfg" where
  "provisioning_configuration vm n = \<lparr>vm_size = vm, max_nodes = n\<rparr>"

datatype job = EstimatorJob estimator | HyperDriveJob hyperdrive_cfg

text \<open>
  Run handles: \<open>run\<close> (the single training submission), \<open>hyperdrive_run\<close> (the search)
  and a child run of the search, by its id.
\<close>

datatype run = ScriptRun | HyperDriveRun | ChildRun string

datatype call =
    FindDotenv
  | SetKey string string
  | GetKey string
  | GetAuth
  | WorkspaceFromConfig
  | NewExperiment string
  | MakeDirs string
  | Copy string string
  | GetDefaultDatastore
  | Upload string string bool
  | LookupCompute string
  | CreateCompute string provisioning_cfg
  | WaitCompute string
  | GetStatus string
  | Submit job
  | ShowRunDetails run
  | GetDetails run
  | WaitForCompletion run
  | GetBestRun
  | GetMetrics run
  | RegisterModel run string string

text \<open>
  \<open>ComputeTargetException\<close> is the one exception class the notebook names; \<open>AttributeError\<close>
  is what Python raises when a method is called on \<open>None\<close>; \<open>Raised\<close> stands for any other
  exception, by its class name.
\<close>

datatype error = ComputeTargetException | AttributeError | Raised string

text \<open>
  The platform, as far as a run of the notebook sees it: which calls raise, the default
  datastore of the workspace, and the child runs the search ends with, each with the final
  value of its primary metric. It is a parameter of the workflow; theorems hold for every
  platform.
\<close>

record platform =
  raises :: "call \<Rightarrow> error option"
  default_datastore :: datastore
  child_runs :: "(string \<times> real) list"

record registered_model =
  model_name :: string
  model_version :: nat
  model_path :: string
  model_run :: run

text \<open>
  The state the workflow acts on: the .env file, the model registry of the workspace
  (a version counter per model name, and the models registered) and the calls made so far.
\<close>

record world =
  dotenv :: "string \<rightharpoonup> string"
  version_counter :: "string \<Rightarrow> nat"
  registry :: "registered_model list"
  calls :: "call list"

type_synonym 'a action = "world \<Rightarrow> (error + 'a) \<times> world"

definition result :: "'a \<Rightarrow> 'a action" where
  "result x w = (Inr x, w)"

definition raise :: "error \<Rightarrow> 'a action" where
  "raise e w = (Inl e, w)"

text \<open>Statement sequencing: an exception ends the run, the effects so far stay.\<close>

definition andthen :: "'a action \<Rightarrow> ('a \<Rightarrow> 'b action) \<Rightarrow> 'b action" where
  "andthen m f w = (case m w of (Inl e, w') \<Rightarrow> (Inl e, w') | (Inr x, w') \<Rightarrow> f x w')"

text \<open>\<open>try: m except: handler\<close>.\<close>

definition try_except :: "'a action \<Rightarrow> (error \<Rightarrow> 'a action) \<Rightarrow> 'a action" where
  "try_except m handler w =
     (case m w of (Inl e, w') \<Rightarrow> handler e w' | (Inr x, w') \<Rightarrow> (Inr x, w'))"

definition invoke :: "platform \<Rightarrow> call \<Rightarrow> unit action" where
  "invoke p c w =
     (case raises p c of None \<Rightarrow> Inr () | Some e \<Rightarrow> Inl e, w\<lparr>calls := calls w @ [c]\<rparr>)"

fun invoke_all :: "platform \<Rightarrow> call list \<Rightarrow> unit action" where
  "invoke_all p [] = result ()"
| "invoke_all p (c # cs) = andthen (invoke p c) (\<lambda>_. invoke_all p cs)"

text \<open>python-dotenv: \<open>set_key\<close> writes one key of the file, \<open>get_key\<close> reads one.\<close>

definition set_key :: "platform \<Rightarrow> string \<Rightarrow> string \<Rightarrow> unit action" where
  "set_key p k v =
     andthen (invoke p (SetKey k v)) (\<lambda>_ w. (Inr (), w\<lparr>dotenv := (dotenv w)(k \<mapsto> v)\<rparr>))"

definition get_key :: "platform \<Rightarrow> string \<Rightarrow> string option action" where
  "get_key p k = andthen (invoke p (GetKey k)) (\<lambda>_ w. (Inr (dotenv w k), w))"

text \<open>
  Modelled from the spec: \<open>utilities.get_auth\<close> is not under src/. The spec has the
  workspace/auth resolver read the persisted configuration and authenticate: a call that
  returns or raises and leaves the file as it is.
\<close>

definition get_auth :: "platform \<Rightarrow> unit action" where
  "get_auth p = invoke p GetAuth"

subsection \<open>The cells, in order\<close>

text \<open>
  \<open>find_dotenv\<close>, \<open>set_key(env_path, "cluster_name", cluster_name)\<close>,
  \<open>Workspace.from_config(auth=get_auth(env_path))\<close>, \<open>Experiment(ws, "torchvision")\<close>.
\<close>

definition configure :: "platform \<Rightarrow> string \<Rightarrow> unit action" where
  "configure p cluster_name =
     andthen (invoke p FindDotenv) (\<lambda>_.
     andthen (set_key p ''cluster_name'' cluster_name) (\<lambda>_.
     andthen (get_auth p) (\<lambda>_.
     andthen (invoke p WorkspaceFromConfig) (\<lambda>_.
     invoke p (NewExperiment ''torchvision'')))))"

text \<open>\<open>os.makedirs(script_folder, exist_ok=True)\<close> and the eight \<open>shutil.copy\<close>.\<close>

definition copy_calls :: "call list" where
  "copy_calls =
     [MakeDirs ''./torchdetect'',
      Copy ''./scripts/coco_eval.py'' ''./torchdetect'',
      Copy ''./scripts/coco_utils.py'' ''./torchdetect'',
      Copy ''./scripts/engine.py'' ''./torchdetect'',
      Copy ''./scripts/transforms.py'' ''./torchdetect'',
      Copy ''./scripts/utils.py'' ''./torchdetect'',
      Copy ''./scripts/maskrcnn_model.py'' ''./torchdetect'',
      Copy ''./scripts/XMLDataset.py'' ''./torchdetect'',
      Copy ''./scripts/train.py'' ''./torchdetect'']"

definition copy_scripts :: "platform \<Rightarrow> unit action" where
  "copy_scripts p = invoke_all p copy_calls"

text \<open>\<open>ds = ws.get_default_datastore()\<close> and the two \<open>ds.upload(..., overwrite=True)\<close>.\<close>

definition upload_calls :: "call list" where
  "upload_calls =
     [GetDefaultDatastore,
      Upload ''./scripts/JPEGImages'' ''JPEGImages'' True,
      Upload ''./scripts/Annotations'' ''Annotations'' True]"

definition upload_dataset :: "platform \<Rightarrow> datastore action" where
  "upload_dataset p =
     andthen (invoke_all p upload_calls) (\<lambda>_. result (default_datastore p))"

text \<open>
  The cell under "Create AmlCompute": look the cluster up; on ComputeTargetException
  create it and wait; any other exception propagates; then print the status.
\<close>

definition create_aml_compute :: "platform \<Rightarrow> string \<Rightarrow> compute_target action" where
  "create_aml_compute p cluster_name =
     andthen
       (try_except
          (andthen (invoke p (LookupCompute cluster_name))
             (\<lambda>_. result (ComputeTarget cluster_name)))
          (\<lambda>e. case e of
                 ComputeTargetException \<Rightarrow>
                   andthen (invoke p (CreateCompute cluster_name
                              (provisioning_configuration ''STANDARD_NC6'' 8))) (\<lambda>_.
                   andthen (invoke p (WaitCompute cluster_name)) (\<lambda>_.
                   result (ComputeTarget cluster_name)))
               | _ \<Rightarrow> raise e))
       (\<lambda>compute_target.
          andthen (invoke p (GetStatus cluster_name)) (\<lambda>_. result compute_target))"

text \<open>\<open>image_name\<close> and \<open>image_registry_details\<close>, read from the .env file.\<close>

definition image_settings :: "platform \<Rightarrow> (string option \<times> container_registry) action" where
  "image_settings p =
     andthen (get_key p ''image_name'') (\<lambda>image_name.
     andthen (get_key p ''acr_server_name'') (\<lambda>a.
     andthen (get_key p ''acr_username'') (\<lambda>u.
     andthen (get_key p ''acr_password'') (\<lambda>pw.
     result (image_name, \<lparr>address = a, username = u, password = pw\<rparr>)))))"

text \<open>
  \<open>run = experiment.submit(estimator)\<close>, \<open>RunDetails(run).show()\<close>, \<open>run.get_details()\<close>,
  \<open>run.wait_for_completion(show_output=True)\<close>.
\<close>

definition submit_calls :: "estimator \<Rightarrow> call list" where
  "submit_calls est =
     [Submit (EstimatorJob est),
      ShowRunDetails ScriptRun,
      GetDetails ScriptRun,
      WaitForCompletion ScriptRun]"

definition submit_job :: "platform \<Rightarrow> estimator \<Rightarrow> unit action" where
  "submit_job p est = invoke_all p (submit_calls est)"

text \<open>
  \<open>hyperdrive_run = experiment.submit(hyperdrive_config)\<close>, \<open>RunDetails(hyperdrive_run).show()\<close>,
  \<open>hyperdrive_run.wait_for_completion(show_output=True, wait_post_processing=True)\<close>.
\<close>

definition tune_calls :: "hyperdrive_cfg \<Rightarrow> call list" where
  "tune_calls cfg =
     [Submit (HyperDriveJob cfg),
      ShowRunDetails HyperDriveRun,
      WaitForCompletion HyperDriveRun]"

definition tune_hyperparameters :: "platform \<Rightarrow> hyperdrive_cfg \<Rightarrow> unit action" where
  "tune_hyperparameters p cfg = invoke_all p (tune_calls cfg)"

text \<open>
  Modelled from the spec: the search and the model registry are the platform's. The spec
  has the search own a best-run pointer, the best run by the primary metric (here
  maximized), and has each registration with the same name increment a version counter.
  \<open>best_of\<close> keeps the first run among those with the best value.
\<close>

fun best_of :: "primary_metric_goal \<Rightarrow> (string \<times> real) list \<Rightarrow> (string \<times> real) option" where
  "best_of goal [] = None"
| "best_of goal (r # rs) =
     (case best_of goal rs of
        None \<Rightarrow> Some r
      | Some b \<Rightarrow>
          if (case goal of MAXIMIZE \<Rightarrow> snd b \<le> snd r | MINIMIZE \<Rightarrow> snd r \<le> snd b)
          then Some r else Some b)"

definition get_best_run_by_primary_metric :: "platform \<Rightarrow> hyperdrive_cfg \<Rightarrow> run option action" where
  "get_best_run_by_primary_metric p cfg =
     andthen (invoke p GetBestRun) (\<lambda>_.
       result (map_option (\<lambda>b. ChildRun (fst b))
                 (best_of (primary_metric_goal cfg) (child_runs p))))"

definition register_model :: "platform \<Rightarrow> run \<Rightarrow> string \<Rightarrow> string \<Rightarrow> registered_model action" where
  "register_model p r name path =
     andthen (invoke p (RegisterModel r name path)) (\<lambda>_ w.
       let m = \<lparr>model_name = name, model_version = Suc (version_counter w name),
                model_path = path, model_run = r\<rparr>
       in (Inr m, w\<lparr>version_counter := (version_counter w)(name := model_version m),
                     registry := registry w @ [m]\<rparr>))"

definition find_and_register_best_model ::
  "platform \<Rightarrow> hyperdrive_cfg \<Rightarrow> registered_model action" where
  "find_and_register_best_model p cfg =
     andthen (get_best_run_by_primary_metric p cfg) (\<lambda>best_run.
       case best_run of
         None \<Rightarrow> raise AttributeError
       | Some r \<Rightarrow>
           andthen (invoke_all p [GetMetrics r, GetDetails r]) (\<lambda>_.
           register_model p r ''torchvision_best_model'' ''/outputs/model_latest.pth''))"

text \<open>
  The notebook: \<open>cluster_name\<close>, \<open>num_epochs\<close> and \<open>max_total_runs\<close> are the values of
  its parameters cell.
\<close>

definition workflow :: "platform \<Rightarrow> string \<Rightarrow> int \<Rightarrow> int \<Rightarrow> registered_model action" where
  "workflow p cluster_name num_epochs total_runs =
     andthen (configure p cluster_name) (\<lambda>_.
     andthen (copy_scripts p) (\<lambda>_.
     andthen (upload_dataset p) (\<lambda>ds.
     andthen (create_aml_compute p cluster_name) (\<lambda>compute_target.
     andthen (image_settings p) (\<lambda>img.
     andthen (submit_job p
                (PyTorch (script_params ds num_epochs) compute_target (fst img) (snd img)))
       (\<lambda>_.
     andthen (tune_hyperparameters p
                (hyperdrive_config
                   (PyTorch (script_params_tune ds num_epochs) compute_target (fst img)
                      (snd img))
                   total_runs))
       (\<lambda>_.
     find_and_register_best_model p
       (hyperdrive_config
          (PyTorch (script_params_tune ds num_epochs) compute_target (fst img) (snd img))
          total_runs))))))))"

subsection \<open>Traces\<close>

text \<open>The calls an action adds to the log of a world.\<close>

definition emitted :: "'a action \<Rightarrow> world \<Rightarrow> call list" where
  "emitted m w = drop (length (calls w)) (calls (snd (m w)))"

text \<open>\<open>run_until stop cs\<close>: the calls of \<open>cs\<close> up to and including the first that stops the run.\<close>

fun run_until :: "('a \<Rightarrow> bool) \<Rightarrow> 'a list \<Rightarrow> 'a list" where
  "run_until stop [] = []"
| "run_until stop (c # cs) = c # (if stop c then [] else run_until stop cs)"

text \<open>
  A call halts the run when it raises, unless it is the cluster lookup raising
  ComputeTargetException, the one exception the notebook handles.
\<close>

definition halts :: "platform \<Rightarrow> string \<Rightarrow> call \<Rightarrow> bool" where
  "halts p cluster_name c =
     (case raises p c of
        None \<Rightarrow> False
      | Some e \<Rightarrow> \<not> (c = LookupCompute cluster_name \<and> e = ComputeTargetException))"

text \<open>\<open>never_before P a tr\<close>: no call satisfying \<open>P\<close> occurs in \<open>tr\<close> before the first \<open>a\<close>.\<close>

definition never_before :: "(call \<Rightarrow> bool) \<Rightarrow> call \<Rightarrow> call list \<Rightarrow> bool" where
  "never_before P a tr = (\<not> list_ex P (takeWhile (\<lambda>c. c \<noteq> a) tr))"

fun is_provisioning :: "call \<Rightarrow> bool" where
  "is_provisioning (CreateCompute n cfg) = True"
| "is_provisioning _ = False"

fun is_search_submission :: "call \<Rightarrow> bool" where
  "is_search_submission (Submit (HyperDriveJob cfg)) = True"
| "is_search_submission _ = False"

fun uses_best_run :: "call \<Rightarrow> bool" where
  "uses_best_run GetBestRun = True"
| "uses_best_run (GetMetrics r) = True"
| "uses_best_run (GetDetails (ChildRun i)) = True"
| "uses_best_run (RegisterModel r n f) = True"
| "uses_best_run _ = False"

fun after_compute :: "call \<Rightarrow> bool" where
  "after_compute (GetStatus n) = True"
| "after_compute (Submit j) = True"
| "after_compute _ = False"

fun keys_written :: "call list \<Rightarrow> string list" where
  "keys_written [] = []"
| "keys_written (SetKey k v # cs) = k # keys_written cs"
| "keys_written (c # cs) = keys_written cs"

fun keys_read :: "call list \<Rightarrow> string list" where
  "keys_read [] = []"
| "keys_read (GetKey k # cs) = k # keys_read cs"
| "keys_read (c # cs) = keys_read cs"

fun is_run_submission :: "call \<Rightarrow> bool" where
  "is_run_submission (Submit (EstimatorJob est)) = True"
| "is_run_submission _ = False"

fun is_wait :: "call \<Rightarrow> bool" where
  "is_wait (WaitCompute n) = True"
| "is_wait (WaitForCompletion r) = True"
| "is_wait _ = False"

text \<open>
  \<open>not_before P Q tr\<close>: no call satisfying \<open>P\<close> occurs in \<open>tr\<close> before the first call
  satisfying \<open>Q\<close>.
\<close>

definition not_before :: "(call \<Rightarrow> bool) \<Rightarrow> (call \<Rightarrow> bool) \<Rightarrow> call list \<Rightarrow> bool" where
  "not_before P Q tr = (\<not> list_ex P (takeWhile (\<lambda>c. \<not> Q c) tr))"

text \<open>
  The general clause of claim C7 in its own words, as a property of a trace: every step
  blocks via an explicit wait call before the next step executes. A step starts with a
  call that starts a remote operation (an upload, the creation of a cluster, a submission,
  a registration; consecutive uploads are one step), and a wait call must come between
  two steps.
\<close>

fun starts_remote :: "call \<Rightarrow> bool" where
  "starts_remote (Upload src target overwrite) = True"
| "starts_remote (CreateCompute n cfg) = True"
| "starts_remote (Submit j) = True"
| "starts_remote (RegisterModel r n f) = True"
| "starts_remote _ = False"

fun same_step :: "call \<Rightarrow> call \<Rightarrow> bool" where
  "same_step (Upload a b c) (Upload d e f) = True"
| "same_step _ _ = False"

fun awaited :: "call option \<Rightarrow> call list \<Rightarrow> bool" where
  "awaited pending [] = True"
| "awaited pending (c # cs) =
     (if is_wait c then awaited None cs
      else if starts_remote c then
        (case pending of
           None \<Rightarrow> awaited (Some c) cs
         | Some d \<Rightarrow> same_step d c \<and> awaited (Some c) cs)
      else awaited pending cs)"

definition every_step_awaited :: "call list \<Rightarrow> bool" where
  "every_step_awaited tr = awaited None tr"

text \<open>
  The calls of the notebook in program order, for a run in which nothing halts: the
  provisioning calls are there when the lookup raises ComputeTargetException, and the
  calls on the best run when the search has one.
\<close>

definition configure_calls :: "string \<Rightarrow> call list" where
  "configure_calls cluster_name =
     [FindDotenv, SetKey ''cluster_name'' cluster_name, GetAuth, WorkspaceFromConfig,
      NewExperiment ''torchvision'']"

definition compute_calls :: "platform \<Rightarrow> string \<Rightarrow> call list" where
  "compute_calls p cluster_name =
     (if raises p (LookupCompute cluster_name) = Some ComputeTargetException
      then [LookupCompute cluster_name,
            CreateCompute cluster_name \<lparr>vm_size = ''STANDARD_NC6'', max_nodes = 8\<rparr>,
            WaitCompute cluster_name,
            GetStatus cluster_name]
      else [LookupCompute cluster_name, GetStatus cluster_name])"

definition image_calls :: "call list" where
  "image_calls =
     [GetKey ''image_name'', GetKey ''acr_server_name'', GetKey ''acr_username'',
      GetKey ''acr_password'']"

definition register_calls :: "platform \<Rightarrow> call list" where
  "register_calls p =
     GetBestRun #
     (case best_of MAXIMIZE (child_runs p) of
        None \<Rightarrow> []
      | Some b \<Rightarrow>
          [GetMetrics (ChildRun (fst b)), GetDetails (ChildRun (fst b)),
           RegisterModel (ChildRun (fst b)) ''torchvision_best_model''
             ''/outputs/model_latest.pth''])"

definition image_of :: "(string \<rightharpoonup> string) \<Rightarrow> string option \<times> container_registry" where
  "image_of env =
     (env ''image_name'',
      \<lparr>address = env ''acr_server_name'', username = env ''acr_username'',
       password = env ''acr_password''\<rparr>)"

definition script ::
  "platform \<Rightarrow> string \<Rightarrow> int \<Rightarrow> int \<Rightarrow> (string \<rightharpoonup> string) \<Rightarrow> call list" where
  "script p cluster_name num_epochs total_runs env =
     configure_calls cluster_name @ copy_calls @ upload_calls @
     compute_calls p cluster_name @ image_calls @
     submit_calls
       (PyTorch (script_params (default_datastore p) num_epochs)
          (ComputeTarget cluster_name) (fst (image_of env)) (snd (image_of env))) @
     tune_calls
       (hyperdrive_config
          (PyTorch (script_params_tune (default_datastore p) num_epochs)
             (ComputeTarget cluster_name) (fst (image_of env)) (snd (image_of env)))
          total_runs) @
     register_calls p"

text \<open>
  \<open>keeps g m\<close>: the action \<open>m\<close> leaves the component \<open>g\<close> of the world as it is;
  \<open>blind g\<close>: the component does not depend on the log of calls.
\<close>

definition keeps :: "(world \<Rightarrow> 'b) \<Rightarrow> 'a action \<Rightarrow> bool" where
  "keeps g m = (\<forall>w. g (snd (m w)) = g w)"

definition blind :: "(world \<Rightarrow> 'b) \<Rightarrow> bool" where
  "blind g = (\<forall>w t. g (w\<lparr>calls := t\<rparr>) = g w)"

subsection \<open>Example platforms\<close>

text \<open>
  A platform on which no call raises (the cluster exists), one on which the lookup of
  "gpu-cluster" raises ComputeTargetException (the cluster does not exist yet) and nothing
  else does, and a world with an .env file, an empty registry and an empty log.
\<close>

definition example_platform :: platform where
  "example_platform =
     \<lparr>raises = (\<lambda>c. None),
      default_datastore =
        \<lparr>datastore_name = ''workspaceblobstore'', container_name = ''azureml-blobstore''\<rparr>,
      child_runs = [(''run_0'', 0.41), (''run_1'', 0.73), (''run_2'', 0.5)]\<rparr>"

definition fresh_platform :: platform where
  "fresh_platform =
     example_platform
       \<lparr>raises := (\<lambda>c. if c = LookupCompute ''gpu-cluster''
                         then Some ComputeTargetException else None)\<rparr>"

definition example_world :: world where
  "example_world =
     \<lparr>dotenv = [''image_name'' \<mapsto> ''torchdetect'', ''acr_server_name'' \<mapsto> ''acr.azurecr.io''],
      version_counter = (\<lambda>name. 0),
      registry = [],
      calls = []\<rparr>"

section \<open>Request construction\<close>

text \<open>
  Claim C1. Every assignment drawn from the constructed search space names the four
  sampled parameters and gives learning_rate a float in [0.0005, 0.005], rpn_nms_thresh a
  float in [0.3, 0.7], anchor_sizes one of the six preset strings and anchor_aspect_ratios
  one of the four preset strings.
\<close>

theorem param_sampling_in_range:
  assumes "drawn_from param_sampling a"
  shows "\<exists>lr nms sizes ratios.
    a = [(''learning_rate'', FloatV lr), (''rpn_nms_thresh'', FloatV nms),
         (''anchor_sizes'', StrV sizes), (''anchor_aspect_ratios'', StrV ratios)]
    \<and> 0.0005 \<le> lr \<and> lr \<le> 0.005
    \<and> 0.3 \<le> nms \<and> nms \<le> 0.7
    \<and> sizes \<in> {''16'', ''16,32'', ''16,32,64'', ''16,32,64,128'', ''16,32,64,128,256'',
                ''16,32,64,128,256,512''}
    \<and> ratios \<in> {''0.25'', ''0.25,0.5'', ''0.25,0.5,1.0'', ''0.25,0.5,1.0,2.0''}"
proof -
  from assms obtain k1 v1 k2 v2 k3 v3 k4 v4 where
    a: "a = [(k1, v1), (k2, v2), (k3, v3), (k4, v4)]"
    and k: "k1 = ''learning_rate''" "k2 = ''rpn_nms_thresh''"
           "k3 = ''anchor_sizes''" "k4 = ''anchor_aspect_ratios''"
    and v1: "admits (uniform 0.0005 0.005) v1"
    and v2: "admits (uniform 0.3 0.7) v2"
    and v3: "admits (choice [StrV ''16'', StrV ''16,32'', StrV ''16,32,64'',
                StrV ''16,32,64,128'', StrV ''16,32,64,128,256'',
                StrV ''16,32,64,128,256,512'']) v3"
    and v4: "admits (choice [StrV ''0.25'', StrV ''0.25,0.5'', StrV ''0.25,0.5,1.0'',
                StrV ''0.25,0.5,1.0,2.0'']) v4"
    by (auto simp: drawn_from_def param_sampling_def list_all2_Cons1)
  from v1 obtain lr where lr: "v1 = FloatV lr" "0.0005 \<le> lr" "lr \<le> 0.005"
    by (cases v1) auto
  from v2 obtain nms where nms: "v2 = FloatV nms" "0.3 \<le> nms" "nms \<le> 0.7"
    by (cases v2) auto
  from v3 obtain sizes where sizes: "v3 = StrV sizes"
    "sizes \<in> {''16'', ''16,32'', ''16,32,64'', ''16,32,64,128'', ''16,32,64,128,256'',
               ''16,32,64,128,256,512''}"
    by auto
  from v4 obtain ratios where ratios: "v4 = StrV ratios"
    "ratios \<in> {''0.25'', ''0.25,0.5'', ''0.25,0.5,1.0'', ''0.25,0.5,1.0,2.0''}"
    by auto
  from a k lr nms sizes ratios show ?thesis by blast
qed

theorem param_sampling_in_range_witness:
  "drawn_from param_sampling
     [(''learning_rate'', FloatV 0.001), (''rpn_nms_thresh'', FloatV 0.7),
      (''anchor_sizes'', StrV ''16,32''), (''anchor_aspect_ratios'', StrV ''0.25'')]
   \<and> (\<exists>lr nms sizes ratios.
    [(''learning_rate'', FloatV 0.001), (''rpn_nms_thresh'', FloatV 0.7),
     (''anchor_sizes'', StrV ''16,32''), (''anchor_aspect_ratios'', StrV ''0.25'')]
      = [(''learning_rate'', FloatV lr), (''rpn_nms_thresh'', FloatV nms),
         (''anchor_sizes'', StrV sizes), (''anchor_aspect_ratios'', StrV ratios)]
    \<and> 0.0005 \<le> lr \<and> lr \<le> 0.005
    \<and> 0.3 \<le> nms \<and> nms \<le> 0.7
    \<and> sizes \<in> {''16'', ''16,32'', ''16,32,64'', ''16,32,64,128'', ''16,32,64,128,256'',
                ''16,32,64,128,256,512''}
    \<and> ratios \<in> {''0.25'', ''0.25,0.5'', ''0.25,0.5,1.0'', ''0.25,0.5,1.0,2.0''})"
proof -
  have h: "drawn_from param_sampling
     [(''learning_rate'', FloatV 0.001), (''rpn_nms_thresh'', FloatV 0.7),
      (''anchor_sizes'', StrV ''16,32''), (''anchor_aspect_ratios'', StrV ''0.25'')]"
    by (simp add: drawn_from_def param_sampling_def)
  from h param_sampling_in_range [OF h] show ?thesis by (rule conjI)
qed

text \<open>
  Claim C2. The parameter mapping of the single training submission has exactly the nine
  keys data_path, workers, learning_rate, epochs, anchor_sizes, anchor_aspect_ratios,
  rpn_nms_thresh, box_nms_thresh and box_score_thresh (each spelled as its command-line
  flag), no key twice, with workers = 8, learning_rate = 0.005, epochs = num_epochs,
  anchor_sizes = "16,32,64,128,256,512", anchor_aspect_ratios = "0.25,0.5,1.0,2.0",
  rpn_nms_thresh = 0.5, box_nms_thresh = 0.3, box_score_thresh = 0.10, and data_path the
  mounted default datastore.
\<close>

theorem script_params_exact:
  "map fst (script_params ds num_epochs) =
     map flag [''data_path'', ''workers'', ''learning_rate'', ''epochs'', ''anchor_sizes'',
               ''anchor_aspect_ratios'', ''rpn_nms_thresh'', ''box_nms_thresh'',
               ''box_score_thresh'']
   \<and> distinct (map fst (script_params ds num_epochs))
   \<and> length (script_params ds num_epochs) = 9
   \<and> dom (map_of (script_params ds num_epochs)) =
       {''--data_path'', ''--workers'', ''--learning_rate'', ''--epochs'', ''--anchor_sizes'',
        ''--anchor_aspect_ratios'', ''--rpn_nms_thresh'', ''--box_nms_thresh'',
        ''--box_score_thresh''}
   \<and> map_of (script_params ds num_epochs) (flag ''data_path'') = Some (DataRef (as_mount ds))
   \<and> map_of (script_params ds num_epochs) (flag ''workers'') = Some (IntV 8)
   \<and> map_of (script_params ds num_epochs) (flag ''learning_rate'') = Some (FloatV 0.005)
   \<and> map_of (script_params ds num_epochs) (flag ''epochs'') = Some (IntV num_epochs)
   \<and> map_of (script_params ds num_epochs) (flag ''anchor_sizes'')
       = Some (StrV ''16,32,64,128,256,512'')
   \<and> map_of (script_params ds num_epochs) (flag ''anchor_aspect_ratios'')
       = Some (StrV ''0.25,0.5,1.0,2.0'')
   \<and> map_of (script_params ds num_epochs) (flag ''rpn_nms_thresh'') = Some (FloatV 0.5)
   \<and> map_of (script_params ds num_epochs) (flag ''box_nms_thresh'') = Some (FloatV 0.3)
   \<and> map_of (script_params ds num_epochs) (flag ''box_score_thresh'') = Some (FloatV 0.10)"
  by (simp add: script_params_def flag_def dom_map_of_conv_image_fst)

text \<open>
  Claim C4. The early-termination policy carries exactly slack_factor = 0.15,
  evaluation_interval = 2 and delay_evaluation = 2.
\<close>

theorem early_termination_policy_fields:
  "early_termination_policy =
     \<lparr>slack_factor = 0.15, evaluation_interval = 2, delay_evaluation = 2\<rparr>
   \<and> slack_factor early_termination_policy = 0.15
   \<and> evaluation_interval early_termination_policy = 2
   \<and> delay_evaluation early_termination_policy = 2"
  by (simp add: early_termination_policy_def BanditPolicy_def)

text \<open>
  Claim C5. The search request is built with primary metric name "mAP@IoU=0.50", goal
  maximize, max_concurrent_runs = 4 and max_total_runs equal to the configured run count
  (and with the declared search space and the early-termination policy above).
\<close>

theorem hyperdrive_config_fields:
  "primary_metric_name (hyperdrive_config est total_runs) = ''mAP@IoU=0.50''
   \<and> primary_metric_goal (hyperdrive_config est total_runs) = MAXIMIZE
   \<and> max_concurrent_runs (hyperdrive_config est total_runs) = 4
   \<and> max_total_runs (hyperdrive_config est total_runs) = total_runs
   \<and> hyperparameter_sampling (hyperdrive_config est total_runs) = param_sampling
   \<and> policy (hyperdrive_config est total_runs) = early_termination_policy
   \<and> hd_estimator (hyperdrive_config est total_runs) = est"
  by (simp add: hyperdrive_config_def)

text \<open>
  Claim C8. The fixed parameter mapping of the search's base job has exactly the five keys
  data_path, workers, epochs, box_nms_thresh and box_score_thresh, with workers = 8,
  epochs = num_epochs, box_nms_thresh = 0.3 and box_score_thresh = 0.10; the four sampled
  names learning_rate, rpn_nms_thresh, anchor_sizes and anchor_aspect_ratios are disjoint
  from the fixed ones (as bare names and as flags); fixed and sampled names together are
  exactly the nine parameters of the single-run submission.
\<close>

theorem script_params_tune_partition:
  "map fst (script_params_tune ds num_epochs) =
     map flag [''data_path'', ''workers'', ''epochs'', ''box_nms_thresh'', ''box_score_thresh'']
   \<and> distinct (map fst (script_params_tune ds num_epochs))
   \<and> map_of (script_params_tune ds num_epochs) (flag ''data_path'')
       = Some (DataRef (as_mount ds))
   \<and> map_of (script_params_tune ds num_epochs) (flag ''workers'') = Some (IntV 8)
   \<and> map_of (script_params_tune ds num_epochs) (flag ''epochs'') = Some (IntV num_epochs)
   \<and> map_of (script_params_tune ds num_epochs) (flag ''box_nms_thresh'') = Some (FloatV 0.3)
   \<and> map_of (script_params_tune ds num_epochs) (flag ''box_score_thresh'')
       = Some (FloatV 0.10)
   \<and> map fst (parameter_space param_sampling) =
       [''learning_rate'', ''rpn_nms_thresh'', ''anchor_sizes'', ''anchor_aspect_ratios'']
   \<and> set (map fst (parameter_space param_sampling))
       \<inter> set (map fst (script_params_tune ds num_epochs)) = {}
   \<and> flag ` set (map fst (parameter_space param_sampling))
       \<inter> set (map fst (script_params_tune ds num_epochs)) = {}
   \<and> set (map fst (script_params_tune ds num_epochs))
       \<union> flag ` set (map fst (parameter_space param_sampling))
       = set (map fst (script_params ds num_epochs))"
proof -
  have fixed: "map fst (script_params_tune ds num_epochs) =
      [''--data_path'', ''--workers'', ''--epochs'', ''--box_nms_thresh'',
       ''--box_score_thresh'']"
    by (simp add: script_params_tune_def)
  have sampled: "map fst (parameter_space param_sampling) =
      [''learning_rate'', ''rpn_nms_thresh'', ''anchor_sizes'', ''anchor_aspect_ratios'']"
    by (simp add: param_sampling_def)
  have single: "map fst (script_params ds num_epochs) =
      [''--data_path'', ''--workers'', ''--learning_rate'', ''--epochs'', ''--anchor_sizes'',
       ''--anchor_aspect_ratios'', ''--rpn_nms_thresh'', ''--box_nms_thresh'',
       ''--box_score_thresh'']"
    by (simp add: script_params_def)
  have vals: "map_of (script_params_tune ds num_epochs) (flag ''data_path'')
        = Some (DataRef (as_mount ds))
    \<and> map_of (script_params_tune ds num_epochs) (flag ''workers'') = Some (IntV 8)
    \<and> map_of (script_params_tune ds num_epochs) (flag ''epochs'') = Some (IntV num_epochs)
    \<and> map_of (script_params_tune ds num_epochs) (flag ''box_nms_thresh'') = Some (FloatV 0.3)
    \<and> map_of (script_params_tune ds num_epochs) (flag ''box_score_thresh'')
        = Some (FloatV 0.10)"
    by (simp add: script_params_tune_def flag_def)
  have disj: "set (map fst (parameter_space param_sampling))
      \<inter> set (map fst (script_params_tune ds num_epochs)) = {}"
    unfolding fixed sampled by simp
  have disj_flag: "flag ` set (map fst (parameter_space param_sampling))
      \<inter> set (map fst (script_params_tune ds num_epochs)) = {}"
    unfolding fixed sampled by (simp add: flag_def)
  have cover: "set (map fst (script_params_tune ds num_epochs))
      \<union> flag ` set (map fst (parameter_space param_sampling))
      = set (map fst (script_params ds num_epochs))"
    unfolding fixed sampled single by (simp add: flag_def insert_commute)
  have keys: "map fst (script_params_tune ds num_epochs) =
      map flag [''data_path'', ''workers'', ''epochs'', ''box_nms_thresh'',
                ''box_score_thresh'']"
    unfolding fixed by (simp add: flag_def)
  have dist: "distinct (map fst (script_params_tune ds num_epochs))"
    unfolding fixed by simp
  from keys dist vals sampled disj disj_flag cover show ?thesis
    by (intro conjI) (elim conjE, assumption)+
qed

text \<open>
  Claim C9. Each value the single training submission fixes for a parameter that the
  search samples lies in the declared space: learning_rate = 0.005 is the upper endpoint
  of uniform(0.0005, 0.005), rpn_nms_thresh = 0.5 lies in [0.3, 0.7], and the anchor_sizes
  and anchor_aspect_ratios strings are among the six and the four choices.
\<close>

theorem script_params_within_param_sampling:
  "list_all
     (\<lambda>decl. case map_of (script_params ds num_epochs) (flag (fst decl)) of
                None \<Rightarrow> False
              | Some v \<Rightarrow> admits (snd decl) v)
     (parameter_space param_sampling)
   \<and> map_of (parameter_space param_sampling) ''learning_rate'' = Some (uniform 0.0005 0.005)
   \<and> map_of (script_params ds num_epochs) (flag ''learning_rate'') = Some (FloatV 0.005)
   \<and> admits (uniform 0.0005 0.005) (FloatV 0.005)
   \<and> map_of (parameter_space param_sampling) ''rpn_nms_thresh'' = Some (uniform 0.3 0.7)
   \<and> map_of (script_params ds num_epochs) (flag ''rpn_nms_thresh'') = Some (FloatV 0.5)
   \<and> admits (uniform 0.3 0.7) (FloatV 0.5)
   \<and> drawn_from param_sampling
       (map (\<lambda>name. (name, the (map_of (script_params ds num_epochs) (flag name))))
          [''learning_rate'', ''rpn_nms_thresh'', ''anchor_sizes'', ''anchor_aspect_ratios''])"
  by (simp add: script_params_def param_sampling_def flag_def drawn_from_def)

section \<open>Properties of the workflow\<close>

subsection \<open>Runs and their traces\<close>

lemma run_until_append:
  "run_until H (xs @ ys) = (if list_ex H xs then run_until H xs else xs @ run_until H ys)"
  by (induction xs) auto

lemma set_run_until: "set (run_until H xs) \<subseteq> set xs"
  by (induction xs) auto

lemma prefix_run_until: "prefix (run_until H xs) xs"
  by (induction xs) auto

lemma run_until_cong: "(\<And>c. c \<in> set cs \<Longrightarrow> H c = H' c) \<Longrightarrow> run_until H cs = run_until H' cs"
  by (induction cs) auto

lemma halts_plain: "c \<noteq> LookupCompute cn \<Longrightarrow> halts p cn c = (raises p c \<noteq> None)"
  by (simp add: halts_def split: option.splits)

lemma invoke_all_calls:
  "calls (snd (invoke_all p cs w)) = calls w @ run_until (\<lambda>c. raises p c \<noteq> None) cs"
  by (induction cs arbitrary: w) (auto simp: andthen_def invoke_def result_def split: option.splits)

lemma invoke_all_isl:
  "isl (fst (invoke_all p cs w)) = list_ex (\<lambda>c. raises p c \<noteq> None) cs"
  by (induction cs arbitrary: w) (auto simp: andthen_def invoke_def result_def split: option.splits)

lemma invoke_all_halts:
  assumes "LookupCompute cn \<notin> set cs"
  shows "calls (snd (invoke_all p cs w)) = calls w @ run_until (halts p cn) cs"
    and "isl (fst (invoke_all p cs w)) = list_ex (halts p cn) cs"
proof -
  have eq: "\<And>c. c \<in> set cs \<Longrightarrow> halts p cn c = (raises p c \<noteq> None)"
    using assms by (auto simp: halts_def split: option.splits)
  show "calls (snd (invoke_all p cs w)) = calls w @ run_until (halts p cn) cs"
    using run_until_cong [of cs "halts p cn" "\<lambda>c. raises p c \<noteq> None", OF eq]
    by (simp add: invoke_all_calls)
  show "isl (fst (invoke_all p cs w)) = list_ex (halts p cn) cs"
    using eq by (simp add: invoke_all_isl list_ex_iff)
qed

lemma blind_fields: "blind dotenv" "blind version_counter" "blind registry"
  by (simp_all add: blind_def)

lemma keeps_invoke: "blind g \<Longrightarrow> keeps g (invoke p c)"
  by (simp add: keeps_def blind_def invoke_def)

lemma keeps_result: "keeps g (result x)"
  by (simp add: keeps_def result_def)

lemma keeps_raise: "keeps g (raise e)"
  by (simp add: keeps_def raise_def)

lemma keeps_andthen:
  assumes "keeps g m" and "\<And>x. keeps g (f x)"
  shows "keeps g (andthen m f)"
  unfolding keeps_def
proof
  fix w
  obtain r w' where mw: "m w = (r, w')" by (cases "m w")
  with assms(1) have w': "g w' = g w" by (auto simp: keeps_def dest: spec [of _ w])
  show "g (snd (andthen m f w)) = g w"
  proof (cases r)
    case (Inl e)
    with mw w' show ?thesis by (simp add: andthen_def)
  next
    case (Inr x)
    from assms(2) [of x] have "g (snd (f x w')) = g w'" by (simp add: keeps_def)
    with Inr mw w' show ?thesis by (simp add: andthen_def)
  qed
qed

lemma keeps_try_except:
  assumes "keeps g m" and "\<And>e. keeps g (h e)"
  shows "keeps g (try_except m h)"
  unfolding keeps_def
proof
  fix w
  obtain r w' where mw: "m w = (r, w')" by (cases "m w")
  with assms(1) have w': "g w' = g w" by (auto simp: keeps_def dest: spec [of _ w])
  show "g (snd (try_except m h w)) = g w"
  proof (cases r)
    case (Inr x)
    with mw w' show ?thesis by (simp add: try_except_def)
  next
    case (Inl e)
    from assms(2) [of e] have "g (snd (h e w')) = g w'" by (simp add: keeps_def)
    with Inl mw w' show ?thesis by (simp add: try_except_def)
  qed
qed

lemma keeps_invoke_all: "blind g \<Longrightarrow> keeps g (invoke_all p cs)"
  by (induction cs) (auto intro: keeps_result keeps_andthen keeps_invoke)

lemma keeps_get_key: "blind g \<Longrightarrow> keeps g (get_key p k)"
  unfolding get_key_def
  by (rule keeps_andthen [OF keeps_invoke]) (simp_all add: keeps_def)

lemmas keeps_intros = keeps_andthen keeps_try_except keeps_invoke keeps_invoke_all keeps_get_key
  keeps_result keeps_raise

lemma keeps_copy_scripts: "blind g \<Longrightarrow> keeps g (copy_scripts p)"
  unfolding copy_scripts_def by (rule keeps_invoke_all)

lemma keeps_upload_dataset: "blind g \<Longrightarrow> keeps g (upload_dataset p)"
  unfolding upload_dataset_def by (intro keeps_intros)

lemma keeps_create_aml_compute: "blind g \<Longrightarrow> keeps g (create_aml_compute p cn)"
  unfolding create_aml_compute_def
  by (intro keeps_intros) (auto split: error.splits intro!: keeps_intros)

lemma keeps_image_settings: "blind g \<Longrightarrow> keeps g (image_settings p)"
  unfolding image_settings_def by (intro keeps_intros)

lemma keeps_submit_job: "blind g \<Longrightarrow> keeps g (submit_job p est)"
  unfolding submit_job_def by (rule keeps_invoke_all)

lemma keeps_tune_hyperparameters: "blind g \<Longrightarrow> keeps g (tune_hyperparameters p cfg)"
  unfolding tune_hyperparameters_def by (rule keeps_invoke_all)

lemma keeps_configure:
  "keeps version_counter (configure p cn)" "keeps registry (configure p cn)"
  unfolding configure_def set_key_def get_auth_def
  by (intro keeps_intros blind_fields; simp add: keeps_def)+

lemma keeps_find_and_register: "keeps dotenv (find_and_register_best_model p cfg)"
  by (simp add: keeps_def find_and_register_best_model_def get_best_run_by_primary_metric_def
      register_model_def andthen_def invoke_def result_def raise_def Let_def
      split: option.splits)

lemmas keeps_cells = keeps_copy_scripts keeps_upload_dataset keeps_create_aml_compute
  keeps_image_settings keeps_submit_job keeps_tune_hyperparameters

text \<open>Each cell: the calls it makes, whether it raises, the value it binds.\<close>

lemma configure_calls_trace:
  "calls (snd (configure p cn w)) = calls w @ run_until (halts p cn) (configure_calls cn)"
  by (simp add: configure_def configure_calls_def set_key_def get_auth_def andthen_def
      invoke_def halts_def split: option.splits)

lemma configure_isl:
  "isl (fst (configure p cn w)) = list_ex (halts p cn) (configure_calls cn)"
  by (simp add: configure_def configure_calls_def set_key_def get_auth_def andthen_def
      invoke_def halts_def split: option.splits)

lemma configure_dotenv:
  "dotenv (snd (configure p cn w)) =
     (if raises p FindDotenv = None \<and> raises p (SetKey ''cluster_name'' cn) = None
      then (dotenv w)(''cluster_name'' \<mapsto> cn) else dotenv w)"
  by (simp add: configure_def set_key_def get_auth_def andthen_def
      invoke_def split: option.splits)

lemma compute_trace:
  "calls (snd (create_aml_compute p cn w)) = calls w @ run_until (halts p cn) (compute_calls p cn)"
  by (simp add: create_aml_compute_def compute_calls_def andthen_def try_except_def
      invoke_def result_def raise_def halts_def provisioning_configuration_def
      split: option.splits error.splits)

lemma compute_isl:
  "isl (fst (create_aml_compute p cn w)) = list_ex (halts p cn) (compute_calls p cn)"
  by (simp add: create_aml_compute_def compute_calls_def andthen_def try_except_def
      invoke_def result_def raise_def halts_def provisioning_configuration_def
      split: option.splits error.splits)

lemma compute_value:
  "fst (create_aml_compute p cn w) = Inr ct \<Longrightarrow> ct = ComputeTarget cn"
  by (simp add: create_aml_compute_def andthen_def try_except_def
      invoke_def result_def raise_def split: option.splits error.splits)

lemma image_trace:
  "calls (snd (image_settings p w)) = calls w @ run_until (halts p cn) image_calls"
  by (simp add: image_settings_def image_calls_def get_key_def andthen_def
      invoke_def result_def halts_def split: option.splits)

lemma image_isl:
  "isl (fst (image_settings p w)) = list_ex (halts p cn) image_calls"
  by (simp add: image_settings_def image_calls_def get_key_def andthen_def
      invoke_def result_def halts_def split: option.splits)

lemma image_value:
  "fst (image_settings p w) = Inr img \<Longrightarrow> img = image_of (dotenv w)"
  by (simp add: image_settings_def image_of_def get_key_def andthen_def
      invoke_def result_def split: option.splits)

lemma upload_value:
  "fst (upload_dataset p w) = Inr ds \<Longrightarrow> ds = default_datastore p"
  by (cases "invoke_all p upload_calls w")
     (auto simp: upload_dataset_def andthen_def result_def split: sum.splits)

lemma upload_trace:
  "calls (snd (upload_dataset p w)) = calls w @ run_until (halts p cn) upload_calls"
  using invoke_all_halts(1) [of cn upload_calls p w]
  by (cases "invoke_all p upload_calls w")
     (auto simp: upload_dataset_def andthen_def result_def upload_calls_def split: sum.splits)

lemma upload_isl:
  "isl (fst (upload_dataset p w)) = list_ex (halts p cn) upload_calls"
  using invoke_all_halts(2) [of cn upload_calls p w]
  by (cases "invoke_all p upload_calls w")
     (auto simp: upload_dataset_def andthen_def result_def upload_calls_def split: sum.splits)

lemma register_trace:
  "calls (snd (find_and_register_best_model p (hyperdrive_config est n) w)) =
     calls w @ run_until (halts p cn) (register_calls p)"
  by (simp add: find_and_register_best_model_def get_best_run_by_primary_metric_def
      register_model_def register_calls_def hyperdrive_config_def andthen_def
      invoke_def result_def raise_def halts_def Let_def split: option.splits)


lemma copy_trace:
  "calls (snd (copy_scripts p w)) = calls w @ run_until (halts p cn) copy_calls"
  unfolding copy_scripts_def by (rule invoke_all_halts(1)) (simp add: copy_calls_def)

lemma copy_isl:
  "isl (fst (copy_scripts p w)) = list_ex (halts p cn) copy_calls"
  unfolding copy_scripts_def by (rule invoke_all_halts(2)) (simp add: copy_calls_def)

lemma submit_trace:
  "calls (snd (submit_job p est w)) = calls w @ run_until (halts p cn) (submit_calls est)"
  unfolding submit_job_def by (rule invoke_all_halts(1)) (simp add: submit_calls_def)

lemma submit_isl:
  "isl (fst (submit_job p est w)) = list_ex (halts p cn) (submit_calls est)"
  unfolding submit_job_def by (rule invoke_all_halts(2)) (simp add: submit_calls_def)

lemma tune_trace:
  "calls (snd (tune_hyperparameters p cfg w)) = calls w @ run_until (halts p cn) (tune_calls cfg)"
  unfolding tune_hyperparameters_def by (rule invoke_all_halts(1)) (simp add: tune_calls_def)

lemma tune_isl:
  "isl (fst (tune_hyperparameters p cfg w)) = list_ex (halts p cn) (tune_calls cfg)"
  unfolding tune_hyperparameters_def by (rule invoke_all_halts(2)) (simp add: tune_calls_def)

lemma run_until_all: "\<not> list_ex H xs \<Longrightarrow> run_until H xs = xs"
  by (induction xs) auto

lemma andthen_trace:
  assumes tr: "calls (snd (m w)) = calls w @ run_until H cs1"
    and fl: "isl (fst (m w)) = list_ex H cs1"
    and rest: "\<And>x. fst (m w) = Inr x \<Longrightarrow>
       calls (snd (f x (snd (m w)))) = calls (snd (m w)) @ run_until H cs2"
  shows "calls (snd (andthen m f w)) = calls w @ run_until H (cs1 @ cs2)"
proof (cases "fst (m w)")
  case (Inl e)
  with fl have "list_ex H cs1" by simp
  moreover from Inl have "snd (andthen m f w) = snd (m w)"
    by (cases "m w") (simp add: andthen_def)
  ultimately show ?thesis using tr by (simp add: run_until_append)
next
  case (Inr x)
  with fl have no: "\<not> list_ex H cs1" by simp
  from Inr have "snd (andthen m f w) = snd (f x (snd (m w)))"
    by (cases "m w") (simp add: andthen_def)
  with rest [OF Inr] tr no show ?thesis
    by (simp add: run_until_append run_until_all)
qed

lemma image_of_cluster_name: "image_of (env(''cluster_name'' \<mapsto> v)) = image_of env"
  by (simp add: image_of_def)

lemma image_env:
  "image_of (dotenv (snd (create_aml_compute p cn (snd (upload_dataset p
      (snd (copy_scripts p (snd (configure p cn w))))))))) = image_of (dotenv w)"
proof -
  have "dotenv (snd (create_aml_compute p cn (snd (upload_dataset p
      (snd (copy_scripts p (snd (configure p cn w)))))))) = dotenv (snd (configure p cn w))"
    using keeps_cells [OF blind_fields(1)] by (simp add: keeps_def)
  then show ?thesis by (simp add: configure_dotenv image_of_cluster_name)
qed

lemma workflow_trace:
  "calls (snd (workflow p cn ne mt w)) =
     calls w @ run_until (halts p cn) (script p cn ne mt (dotenv w))"
  unfolding workflow_def script_def
  apply (rule andthen_trace [OF configure_calls_trace configure_isl])
  apply (rule andthen_trace [OF copy_trace copy_isl])
  apply (rule andthen_trace [OF upload_trace upload_isl])
  apply (drule upload_value)
  apply hypsubst
  apply (rule andthen_trace [OF compute_trace compute_isl])
  apply (drule compute_value)
  apply hypsubst
  apply (rule andthen_trace [OF image_trace image_isl])
  apply (drule image_value)
  apply hypsubst
  apply (simp only: image_env)
  apply (rule andthen_trace [OF submit_trace submit_isl])
  apply (rule andthen_trace [OF tune_trace tune_isl])
  apply (rule register_trace)
  done

lemma emitted_workflow:
  "emitted (workflow p cn ne mt) w = run_until (halts p cn) (script p cn ne mt (dotenv w))"
  by (simp add: emitted_def workflow_trace)

subsection \<open>Frame and outcome of a whole run\<close>

lemma keepsD: "keeps g m \<Longrightarrow> m w = (r, w') \<Longrightarrow> g w' = g w"
  by (auto simp: keeps_def dest: spec [of _ w])

lemma andthen_keeps_rest:
  assumes "\<And>x. keeps g (f x)"
  shows "g (snd (andthen m f w)) = g (snd (m w))"
proof (cases "m w")
  case (Pair r w')
  show ?thesis
  proof (cases r)
    case (Inl e)
    with Pair show ?thesis by (simp add: andthen_def)
  next
    case (Inr x)
    with Pair assms [of x] show ?thesis by (simp add: andthen_def keeps_def)
  qed
qed

lemma workflow_dotenv:
  "dotenv (snd (workflow p cn ne mt w)) =
     (if raises p FindDotenv = None \<and> raises p (SetKey ''cluster_name'' cn) = None
      then (dotenv w)(''cluster_name'' \<mapsto> cn) else dotenv w)"
proof -
  have "dotenv (snd (workflow p cn ne mt w)) = dotenv (snd (configure p cn w))"
    unfolding workflow_def
    by (rule andthen_keeps_rest)
       (intro keeps_andthen keeps_cells blind_fields keeps_find_and_register)
  then show ?thesis by (simp add: configure_dotenv)
qed

lemma best_of_max:
  "best_of MAXIMIZE rs = Some b \<Longrightarrow> b \<in> set rs \<and> (\<forall>r\<in>set rs. snd r \<le> snd b)"
proof (induction rs arbitrary: b)
  case Nil
  then show ?case by simp
next
  case (Cons r rs)
  show ?case
  proof (cases "best_of MAXIMIZE rs")
    case None
    then have "rs = []" by (cases rs) (auto split: option.splits if_splits)
    with Cons.prems show ?thesis by simp
  next
    case (Some b')
    from Cons.IH [OF Some] have b': "b' \<in> set rs" "\<forall>x\<in>set rs. snd x \<le> snd b'" by auto
    show ?thesis
    proof (cases "snd b' \<le> snd r")
      case True
      with Some Cons.prems have "b = r" by simp
      with True b' show ?thesis by auto
    next
      case False
      with Some Cons.prems have "b = b'" by simp
      with False b' show ?thesis by auto
    qed
  qed
qed

lemma register_result:
  assumes "fst (find_and_register_best_model p cfg w) = Inr m"
    and "primary_metric_goal cfg = MAXIMIZE"
  shows "\<exists>b. best_of MAXIMIZE (child_runs p) = Some b
    \<and> m = \<lparr>model_name = ''torchvision_best_model'',
           model_version = Suc (version_counter w ''torchvision_best_model''),
           model_path = ''/outputs/model_latest.pth'',
           model_run = ChildRun (fst b)\<rparr>
    \<and> registry (snd (find_and_register_best_model p cfg w)) = registry w @ [m]
    \<and> version_counter (snd (find_and_register_best_model p cfg w)) =
        (version_counter w)(''torchvision_best_model'' :=
           Suc (version_counter w ''torchvision_best_model''))
    \<and> \<not> list_ex (halts p cn) (register_calls p)"
  using assms
  by (auto simp: find_and_register_best_model_def get_best_run_by_primary_metric_def
      register_model_def register_calls_def andthen_def invoke_def result_def raise_def
      halts_def Let_def split: option.splits)

lemma workflow_success:
  assumes "fst (workflow p cn ne mt w) = Inr m"
  shows "\<exists>b. best_of MAXIMIZE (child_runs p) = Some b
    \<and> m = \<lparr>model_name = ''torchvision_best_model'',
           model_version = Suc (version_counter w ''torchvision_best_model''),
           model_path = ''/outputs/model_latest.pth'',
           model_run = ChildRun (fst b)\<rparr>
    \<and> registry (snd (workflow p cn ne mt w)) = registry w @ [m]
    \<and> version_counter (snd (workflow p cn ne mt w)) =
        (version_counter w)(''torchvision_best_model'' :=
           Suc (version_counter w ''torchvision_best_model''))
    \<and> emitted (workflow p cn ne mt) w = script p cn ne mt (dotenv w)"
proof -
  from assms obtain x1 w1 x2 w2 ds w3 ct w4 img w5 x6 w6 x7 w7 where
    c1: "configure p cn w = (Inr x1, w1)" and
    c2: "copy_scripts p w1 = (Inr x2, w2)" and
    c3: "upload_dataset p w2 = (Inr ds, w3)" and
    c4: "create_aml_compute p cn w3 = (Inr ct, w4)" and
    c5: "image_settings p w4 = (Inr img, w5)" and
    c6: "submit_job p (PyTorch (script_params ds ne) ct (fst img) (snd img)) w5 = (Inr x6, w6)" and
    c7: "tune_hyperparameters p
           (hyperdrive_config (PyTorch (script_params_tune ds ne) ct (fst img) (snd img)) mt) w6
         = (Inr x7, w7)" and
    c8: "fst (find_and_register_best_model p
           (hyperdrive_config (PyTorch (script_params_tune ds ne) ct (fst img) (snd img)) mt) w7)
         = Inr m" and
    wf: "snd (workflow p cn ne mt w) = snd (find_and_register_best_model p
           (hyperdrive_config (PyTorch (script_params_tune ds ne) ct (fst img) (snd img)) mt) w7)"
    by (auto simp: workflow_def andthen_def split: prod.splits sum.splits)
  have vc: "version_counter w7 = version_counter w"
    using keepsD [OF keeps_configure(1) c1]
      keepsD [OF keeps_copy_scripts [OF blind_fields(2)] c2]
      keepsD [OF keeps_upload_dataset [OF blind_fields(2)] c3]
      keepsD [OF keeps_create_aml_compute [OF blind_fields(2)] c4]
      keepsD [OF keeps_image_settings [OF blind_fields(2)] c5]
      keepsD [OF keeps_submit_job [OF blind_fields(2)] c6]
      keepsD [OF keeps_tune_hyperparameters [OF blind_fields(2)] c7]
    by simp
  have rg: "registry w7 = registry w"
    using keepsD [OF keeps_configure(2) c1]
      keepsD [OF keeps_copy_scripts [OF blind_fields(3)] c2]
      keepsD [OF keeps_upload_dataset [OF blind_fields(3)] c3]
      keepsD [OF keeps_create_aml_compute [OF blind_fields(3)] c4]
      keepsD [OF keeps_image_settings [OF blind_fields(3)] c5]
      keepsD [OF keeps_submit_job [OF blind_fields(3)] c6]
      keepsD [OF keeps_tune_hyperparameters [OF blind_fields(3)] c7]
    by simp
  have img: "img = image_of (dotenv w)"
  proof -
    have "dotenv w4 = dotenv w1"
      using keepsD [OF keeps_copy_scripts [OF blind_fields(1)] c2]
        keepsD [OF keeps_upload_dataset [OF blind_fields(1)] c3]
        keepsD [OF keeps_create_aml_compute [OF blind_fields(1)] c4]
      by simp
    moreover have "dotenv w1 = dotenv (snd (configure p cn w))" using c1 by simp
    moreover have "img = image_of (dotenv w4)" using image_value [of p w4 img] c5 by simp
    ultimately show ?thesis by (simp add: configure_dotenv image_of_cluster_name)
  qed
  have ds: "ds = default_datastore p" using upload_value [of p w2 ds] c3 by simp
  have ct: "ct = ComputeTarget cn" using compute_value [of p cn w3 ct] c4 by simp
  have no: "\<not> list_ex (halts p cn) (configure_calls cn)"
    "\<not> list_ex (halts p cn) copy_calls"
    "\<not> list_ex (halts p cn) upload_calls"
    "\<not> list_ex (halts p cn) (compute_calls p cn)"
    "\<not> list_ex (halts p cn) image_calls"
    "\<not> list_ex (halts p cn) (submit_calls (PyTorch (script_params ds ne) ct (fst img) (snd img)))"
    "\<not> list_ex (halts p cn) (tune_calls
        (hyperdrive_config (PyTorch (script_params_tune ds ne) ct (fst img) (snd img)) mt))"
    using c1 c2 c3 c4 c5 c6 c7
      configure_isl [where p = p and cn = cn and w = w]
      copy_isl [where p = p and cn = cn and w = w1]
      upload_isl [where p = p and cn = cn and w = w2]
      compute_isl [where p = p and cn = cn and w = w3]
      image_isl [where p = p and cn = cn and w = w4]
      submit_isl [where p = p and cn = cn and w = w5, symmetric]
      tune_isl [where p = p and cn = cn and w = w6, symmetric]
    by simp_all
  from register_result [OF c8, of cn] obtain b where
    b: "best_of MAXIMIZE (child_runs p) = Some b"
    and m: "m = \<lparr>model_name = ''torchvision_best_model'',
           model_version = Suc (version_counter w7 ''torchvision_best_model''),
           model_path = ''/outputs/model_latest.pth'',
           model_run = ChildRun (fst b)\<rparr>"
    and r: "registry (snd (workflow p cn ne mt w)) = registry w7 @ [m]"
    and v: "version_counter (snd (workflow p cn ne mt w)) =
        (version_counter w7)(''torchvision_best_model'' :=
           Suc (version_counter w7 ''torchvision_best_model''))"
    and n8: "\<not> list_ex (halts p cn) (register_calls p)"
    unfolding wf by (auto simp: hyperdrive_config_def)
  have "\<not> list_ex (halts p cn) (script p cn ne mt (dotenv w))"
    using no n8 unfolding script_def ds ct img by simp
  then have "emitted (workflow p cn ne mt) w = script p cn ne mt (dotenv w)"
    by (simp add: emitted_workflow run_until_all)
  with b m r v vc rg show ?thesis by auto
qed

subsection \<open>Properties of traces\<close>

lemma list_ex_run_until: "list_ex P (run_until H xs) \<Longrightarrow> list_ex P xs"
  using set_run_until [of H xs] by (auto simp: list_ex_iff)

lemma butlast_run_until: "list_all (\<lambda>c. \<not> H c) (butlast (run_until H xs))"
  by (induction xs) auto

lemma never_before_prefix:
  assumes "prefix t s" and "never_before P a s"
  shows "never_before P a t"
proof -
  from assms(1) obtain r where s: "s = t @ r" by (auto simp: prefix_def)
  have "set (takeWhile (\<lambda>c. c \<noteq> a) t) \<subseteq> set (takeWhile (\<lambda>c. c \<noteq> a) (t @ r))"
    by (induction t) auto
  with assms(2) show ?thesis unfolding never_before_def s list_ex_iff by blast
qed

lemmas piece_defs = configure_calls_def copy_calls_def upload_calls_def compute_calls_def
  image_calls_def submit_calls_def tune_calls_def register_calls_def

lemma script_search_after_wait:
  "never_before is_search_submission (WaitForCompletion ScriptRun) (script p cn ne mt env)"
  by (simp add: never_before_def script_def piece_defs)

lemma script_best_after_wait:
  "never_before uses_best_run (WaitForCompletion HyperDriveRun) (script p cn ne mt env)"
  by (simp add: never_before_def script_def piece_defs)

lemma script_compute_after_wait:
  "raises p (LookupCompute cn) = Some ComputeTargetException \<Longrightarrow>
   never_before after_compute (WaitCompute cn) (script p cn ne mt env)"
  by (simp add: never_before_def script_def piece_defs)

lemma provisioning_iff:
  "list_ex is_provisioning (emitted (workflow p cn ne mt) w) =
     (LookupCompute cn \<in> set (emitted (workflow p cn ne mt) w)
      \<and> raises p (LookupCompute cn) = Some ComputeTargetException)"
proof -
  define A where "A = configure_calls cn @ copy_calls @ upload_calls"
  define B where "B = image_calls @
     submit_calls
       (PyTorch (script_params (default_datastore p) ne)
          (ComputeTarget cn) (fst (image_of (dotenv w))) (snd (image_of (dotenv w)))) @
     tune_calls
       (hyperdrive_config
          (PyTorch (script_params_tune (default_datastore p) ne)
             (ComputeTarget cn) (fst (image_of (dotenv w))) (snd (image_of (dotenv w))))
          mt) @
     register_calls p"
  let ?H = "halts p cn"
  have scr: "script p cn ne mt (dotenv w) = A @ compute_calls p cn @ B"
    by (simp add: script_def A_def B_def)
  have A: "\<not> list_ex is_provisioning A" "LookupCompute cn \<notin> set A"
    by (simp_all add: A_def configure_calls_def copy_calls_def upload_calls_def)
  have B: "\<not> list_ex is_provisioning B" "LookupCompute cn \<notin> set B"
    by (simp_all add: B_def image_calls_def submit_calls_def tune_calls_def register_calls_def
        split: option.splits)
  have rB: "\<not> list_ex is_provisioning (run_until ?H B)"
    using list_ex_run_until [of is_provisioning ?H B] B by blast
  have tr: "emitted (workflow p cn ne mt) w = run_until ?H (A @ compute_calls p cn @ B)"
    by (simp add: emitted_workflow scr)
  show ?thesis
  proof (cases "list_ex ?H A")
    case True
    then have t: "emitted (workflow p cn ne mt) w = run_until ?H A"
      by (simp add: tr run_until_append)
    have "\<not> list_ex is_provisioning (run_until ?H A)"
      using list_ex_run_until [of is_provisioning ?H A] A by blast
    moreover have "LookupCompute cn \<notin> set (run_until ?H A)"
      using set_run_until [of ?H A] A by blast
    ultimately show ?thesis by (simp add: t)
  next
    case False
    then have t: "emitted (workflow p cn ne mt) w = A @ run_until ?H (compute_calls p cn @ B)"
      by (simp add: tr run_until_append)
    show ?thesis
    proof (cases "raises p (LookupCompute cn) = Some ComputeTargetException")
      case True
      then show ?thesis by (simp add: t compute_calls_def halts_def)
    next
      case False
      with A rB show ?thesis by (simp add: t compute_calls_def)
    qed
  qed
qed

subsection \<open>Runs in which nothing halts\<close>

lemma example_no_halt: "\<not> halts example_platform cn c"
  by (simp add: halts_def example_platform_def)

lemma fresh_no_halt: "\<not> halts fresh_platform ''gpu-cluster'' c"
  by (simp add: halts_def fresh_platform_def example_platform_def)

lemma example_best: "best_of MAXIMIZE (child_runs example_platform) = Some (''run_1'', 0.73)"
  by (simp add: example_platform_def)

lemma andthen_ok:
  "\<not> isl (fst (m w)) \<Longrightarrow> andthen m f w = f (projr (fst (m w))) (snd (m w))"
  by (cases "m w"; cases "fst (m w)") (auto simp: andthen_def)

lemma register_ok:
  assumes "\<And>c. \<not> halts p cn c" and "best_of (primary_metric_goal cfg) (child_runs p) = Some b"
  shows "fst (find_and_register_best_model p cfg w) =
     Inr \<lparr>model_name = ''torchvision_best_model'',
          model_version = Suc (version_counter w ''torchvision_best_model''),
          model_path = ''/outputs/model_latest.pth'',
          model_run = ChildRun (fst b)\<rparr>"
proof -
  have r: "raises p c = None" if "c \<noteq> LookupCompute cn" for c
    using assms(1) [of c] that by (cases "raises p c") (auto simp: halts_def)
  show ?thesis
    using assms(2)
    by (simp add: find_and_register_best_model_def get_best_run_by_primary_metric_def
        register_model_def andthen_def invoke_def result_def r Let_def)
qed

lemma workflow_ok:
  assumes h: "\<And>c. \<not> halts p cn c" and b: "best_of MAXIMIZE (child_runs p) = Some b"
  shows "fst (workflow p cn ne mt w) =
     Inr \<lparr>model_name = ''torchvision_best_model'',
          model_version = Suc (version_counter w ''torchvision_best_model''),
          model_path = ''/outputs/model_latest.pth'',
          model_run = ChildRun (fst b)\<rparr>"
proof -
  have no: "\<And>cs. \<not> list_ex (halts p cn) cs"
    using h by (simp add: list_ex_iff)
  have ok: "\<And>w. \<not> isl (fst (configure p cn w))" "\<And>w. \<not> isl (fst (copy_scripts p w))"
    "\<And>w. \<not> isl (fst (upload_dataset p w))" "\<And>w. \<not> isl (fst (create_aml_compute p cn w))"
    "\<And>w. \<not> isl (fst (image_settings p w))" "\<And>w est. \<not> isl (fst (submit_job p est w))"
    "\<And>w cfg. \<not> isl (fst (tune_hyperparameters p cfg w))"
    by (simp_all add: no configure_isl copy_isl [where cn = cn] upload_isl [where cn = cn]
        compute_isl image_isl [where cn = cn] submit_isl [where cn = cn]
        tune_isl [where cn = cn])
  have vc: "\<And>w. version_counter (snd (configure p cn w)) = version_counter w"
    "\<And>w. version_counter (snd (copy_scripts p w)) = version_counter w"
    "\<And>w. version_counter (snd (upload_dataset p w)) = version_counter w"
    "\<And>w. version_counter (snd (create_aml_compute p cn w)) = version_counter w"
    "\<And>w. version_counter (snd (image_settings p w)) = version_counter w"
    "\<And>w est. version_counter (snd (submit_job p est w)) = version_counter w"
    "\<And>w cfg. version_counter (snd (tune_hyperparameters p cfg w)) = version_counter w"
    using keeps_configure(1) [of p cn] keeps_cells [OF blind_fields(2), of p]
    by (simp_all add: keeps_def)
  show ?thesis
    unfolding workflow_def
    by (simp add: andthen_ok ok register_ok [OF h, where b = b] b hyperdrive_config_def vc)
qed

subsection \<open>Compute resolution\<close>

text \<open>
  Claim C3. Compute resolution first looks the cluster up by name. If the lookup raises
  ComputeTargetException, the only exception handled, a cluster is created under that
  name with vm_size "STANDARD_NC6" and max_nodes 8, and its wait_for_completion is called
  before the status is read; an exception of the creation or of the wait propagates. If
  the lookup returns, the existing cluster is used and nothing is created. Any other
  exception of the lookup propagates. In a run of the whole notebook a cluster is created
  exactly when the lookup was reached and raised ComputeTargetException.
\<close>

theorem compute_resolution:
  "emitted (create_aml_compute p cn) w =
     (case raises p (LookupCompute cn) of
        None \<Rightarrow> [LookupCompute cn, GetStatus cn]
      | Some ComputeTargetException \<Rightarrow>
          LookupCompute cn # CreateCompute cn \<lparr>vm_size = ''STANDARD_NC6'', max_nodes = 8\<rparr> #
            (case raises p (CreateCompute cn \<lparr>vm_size = ''STANDARD_NC6'', max_nodes = 8\<rparr>) of
               Some e \<Rightarrow> []
             | None \<Rightarrow> WaitCompute cn #
                 (case raises p (WaitCompute cn) of Some e \<Rightarrow> [] | None \<Rightarrow> [GetStatus cn]))
      | Some e \<Rightarrow> [LookupCompute cn])
   \<and> fst (create_aml_compute p cn w) =
     (case raises p (LookupCompute cn) of
        None \<Rightarrow>
          (case raises p (GetStatus cn) of None \<Rightarrow> Inr (ComputeTarget cn) | Some e \<Rightarrow> Inl e)
      | Some ComputeTargetException \<Rightarrow>
          (case raises p (CreateCompute cn \<lparr>vm_size = ''STANDARD_NC6'', max_nodes = 8\<rparr>) of
             Some e \<Rightarrow> Inl e
           | None \<Rightarrow>
               (case raises p (WaitCompute cn) of
                  Some e \<Rightarrow> Inl e
                | None \<Rightarrow>
                    (case raises p (GetStatus cn) of
                       None \<Rightarrow> Inr (ComputeTarget cn)
                     | Some e \<Rightarrow> Inl e)))
      | Some e \<Rightarrow> Inl e)
   \<and> list_ex is_provisioning (emitted (workflow p cn ne mt) w) =
       (LookupCompute cn \<in> set (emitted (workflow p cn ne mt) w)
        \<and> raises p (LookupCompute cn) = Some ComputeTargetException)"
proof (intro conjI)
  show "emitted (create_aml_compute p cn) w =
     (case raises p (LookupCompute cn) of
        None \<Rightarrow> [LookupCompute cn, GetStatus cn]
      | Some ComputeTargetException \<Rightarrow>
          LookupCompute cn # CreateCompute cn \<lparr>vm_size = ''STANDARD_NC6'', max_nodes = 8\<rparr> #
            (case raises p (CreateCompute cn \<lparr>vm_size = ''STANDARD_NC6'', max_nodes = 8\<rparr>) of
               Some e \<Rightarrow> []
             | None \<Rightarrow> WaitCompute cn #
                 (case raises p (WaitCompute cn) of Some e \<Rightarrow> [] | None \<Rightarrow> [GetStatus cn]))
      | Some e \<Rightarrow> [LookupCompute cn])"
    by (simp add: emitted_def create_aml_compute_def invoke_def andthen_def try_except_def
        result_def raise_def provisioning_configuration_def
        split: option.splits error.splits)
  show "fst (create_aml_compute p cn w) =
     (case raises p (LookupCompute cn) of
        None \<Rightarrow>
          (case raises p (GetStatus cn) of None \<Rightarrow> Inr (ComputeTarget cn) | Some e \<Rightarrow> Inl e)
      | Some ComputeTargetException \<Rightarrow>
          (case raises p (CreateCompute cn \<lparr>vm_size = ''STANDARD_NC6'', max_nodes = 8\<rparr>) of
             Some e \<Rightarrow> Inl e
           | None \<Rightarrow>
               (case raises p (WaitCompute cn) of
                  Some e \<Rightarrow> Inl e
                | None \<Rightarrow>
                    (case raises p (GetStatus cn) of
                       None \<Rightarrow> Inr (ComputeTarget cn)
                     | Some e \<Rightarrow> Inl e)))
      | Some e \<Rightarrow> Inl e)"
    by (simp add: create_aml_compute_def invoke_def andthen_def try_except_def
        result_def raise_def provisioning_configuration_def
        split: option.splits error.splits)
  show "list_ex is_provisioning (emitted (workflow p cn ne mt) w) =
       (LookupCompute cn \<in> set (emitted (workflow p cn ne mt) w)
        \<and> raises p (LookupCompute cn) = Some ComputeTargetException)"
    by (rule provisioning_iff)
qed

subsection \<open>The registered model\<close>

text \<open>
  Claim C6. When a run of the notebook succeeds, the search has a best run, one whose
  primary metric no other child run exceeds; the model the run returns is that run's
  artifact "/outputs/model_latest.pth" under the name "torchvision_best_model", with the
  version one above the counter of that name, the registration is the last call of the
  run, and the registry grows by that model. A second successful run after it registers
  under the same name with the next version: two distinct, incrementing versions.
\<close>

theorem best_model_registered:
  assumes "fst (workflow p cn ne mt w) = Inr m1"
  shows "(\<exists>b. best_of MAXIMIZE (child_runs p) = Some b
        \<and> b \<in> set (child_runs p)
        \<and> (\<forall>r\<in>set (child_runs p). snd r \<le> snd b)
        \<and> m1 = \<lparr>model_name = ''torchvision_best_model'',
                model_version = Suc (version_counter w ''torchvision_best_model''),
                model_path = ''/outputs/model_latest.pth'',
                model_run = ChildRun (fst b)\<rparr>
        \<and> last (emitted (workflow p cn ne mt) w) =
            RegisterModel (ChildRun (fst b)) ''torchvision_best_model''
              ''/outputs/model_latest.pth'')
    \<and> registry (snd (workflow p cn ne mt w)) = registry w @ [m1]
    \<and> (\<forall>p' cn' ne' mt' m2.
          fst (workflow p' cn' ne' mt' (snd (workflow p cn ne mt w))) = Inr m2 \<longrightarrow>
            registry (snd (workflow p' cn' ne' mt' (snd (workflow p cn ne mt w))))
              = registry w @ [m1, m2]
            \<and> model_name m2 = model_name m1
            \<and> model_path m2 = model_path m1
            \<and> model_version m2 = Suc (model_version m1)
            \<and> model_version m1 \<noteq> model_version m2)"
proof -
  let ?w1 = "snd (workflow p cn ne mt w)"
  from workflow_success [OF assms] obtain b where
    b: "best_of MAXIMIZE (child_runs p) = Some b"
    and m1: "m1 = \<lparr>model_name = ''torchvision_best_model'',
                model_version = Suc (version_counter w ''torchvision_best_model''),
                model_path = ''/outputs/model_latest.pth'',
                model_run = ChildRun (fst b)\<rparr>"
    and r1: "registry ?w1 = registry w @ [m1]"
    and v1: "version_counter ?w1 =
        (version_counter w)(''torchvision_best_model'' :=
           Suc (version_counter w ''torchvision_best_model''))"
    and e1: "emitted (workflow p cn ne mt) w = script p cn ne mt (dotenv w)"
    by blast
  have l: "last (emitted (workflow p cn ne mt) w) =
            RegisterModel (ChildRun (fst b)) ''torchvision_best_model''
              ''/outputs/model_latest.pth''"
    by (simp add: e1 script_def register_calls_def b)
  from best_of_max [OF b] have mx: "b \<in> set (child_runs p)"
    "\<forall>r\<in>set (child_runs p). snd r \<le> snd b" by auto
  from b mx m1 l have first: "\<exists>b. best_of MAXIMIZE (child_runs p) = Some b
        \<and> b \<in> set (child_runs p)
        \<and> (\<forall>r\<in>set (child_runs p). snd r \<le> snd b)
        \<and> m1 = \<lparr>model_name = ''torchvision_best_model'',
                model_version = Suc (version_counter w ''torchvision_best_model''),
                model_path = ''/outputs/model_latest.pth'',
                model_run = ChildRun (fst b)\<rparr>
        \<and> last (emitted (workflow p cn ne mt) w) =
            RegisterModel (ChildRun (fst b)) ''torchvision_best_model''
              ''/outputs/model_latest.pth''"
    by blast
  have second: "registry (snd (workflow p' cn' ne' mt' ?w1)) = registry w @ [m1, m2]
      \<and> model_name m2 = model_name m1
      \<and> model_path m2 = model_path m1
      \<and> model_version m2 = Suc (model_version m1)
      \<and> model_version m1 \<noteq> model_version m2"
    if h2: "fst (workflow p' cn' ne' mt' ?w1) = Inr m2" for p' cn' ne' mt' m2
  proof -
    from workflow_success [OF h2] obtain b' where
      m2: "m2 = \<lparr>model_name = ''torchvision_best_model'',
                  model_version = Suc (version_counter ?w1 ''torchvision_best_model''),
                  model_path = ''/outputs/model_latest.pth'',
                  model_run = ChildRun (fst b')\<rparr>"
      and r2: "registry (snd (workflow p' cn' ne' mt' ?w1)) = registry ?w1 @ [m2]"
      and b': "best_of MAXIMIZE (child_runs p') = Some b'"
      and v2: "version_counter (snd (workflow p' cn' ne' mt' ?w1)) =
          (version_counter ?w1)(''torchvision_best_model'' :=
             Suc (version_counter ?w1 ''torchvision_best_model''))"
      and e2: "emitted (workflow p' cn' ne' mt') ?w1 = script p' cn' ne' mt' (dotenv ?w1)"
      by blast
    have "model_version m2 = Suc (model_version m1)" by (simp add: m1 m2 v1)
    moreover have "model_name m2 = model_name m1" "model_path m2 = model_path m1"
      by (simp_all add: m1 m2)
    moreover from r1 r2 have "registry (snd (workflow p' cn' ne' mt' ?w1)) = registry w @ [m1, m2]"
      by simp
    ultimately show ?thesis by simp
  qed
  from first r1 second show ?thesis by blast
qed

theorem best_model_registered_witness:
  "fst (workflow example_platform ''gpu-cluster'' 1 1 example_world) =
     Inr \<lparr>model_name = ''torchvision_best_model'', model_version = 1,
          model_path = ''/outputs/model_latest.pth'', model_run = ChildRun ''run_1''\<rparr>
   \<and> fst (workflow example_platform ''gpu-cluster'' 1 1
           (snd (workflow example_platform ''gpu-cluster'' 1 1 example_world))) =
     Inr \<lparr>model_name = ''torchvision_best_model'', model_version = 2,
          model_path = ''/outputs/model_latest.pth'', model_run = ChildRun ''run_1''\<rparr>
   \<and> registry (snd (workflow example_platform ''gpu-cluster'' 1 1
           (snd (workflow example_platform ''gpu-cluster'' 1 1 example_world)))) =
     [\<lparr>model_name = ''torchvision_best_model'', model_version = 1,
       model_path = ''/outputs/model_latest.pth'', model_run = ChildRun ''run_1''\<rparr>,
      \<lparr>model_name = ''torchvision_best_model'', model_version = 2,
       model_path = ''/outputs/model_latest.pth'', model_run = ChildRun ''run_1''\<rparr>]"
proof -
  let ?w1 = "snd (workflow example_platform ''gpu-cluster'' 1 1 example_world)"
  let ?m1 = "\<lparr>model_name = ''torchvision_best_model'', model_version = 1,
          model_path = ''/outputs/model_latest.pth'', model_run = ChildRun ''run_1''\<rparr>"
  let ?m2 = "\<lparr>model_name = ''torchvision_best_model'', model_version = 2,
          model_path = ''/outputs/model_latest.pth'', model_run = ChildRun ''run_1''\<rparr>"
  have h1: "fst (workflow example_platform ''gpu-cluster'' 1 1 example_world) = Inr ?m1"
    using workflow_ok [OF example_no_halt example_best, of "''gpu-cluster''" 1 1 example_world]
    by (simp add: example_world_def)
  have v: "version_counter ?w1 ''torchvision_best_model'' = 1"
    using workflow_success [OF h1] by (simp add: example_world_def)
  have h2: "fst (workflow example_platform ''gpu-cluster'' 1 1 ?w1) = Inr ?m2"
    using workflow_ok [OF example_no_halt example_best, of "''gpu-cluster''" 1 1 ?w1]
    by (simp add: v)
  from best_model_registered [OF h1] h2
  have "registry (snd (workflow example_platform ''gpu-cluster'' 1 1 ?w1)) =
      registry example_world @ [?m1, ?m2]"
    by blast
  with h1 h2 show ?thesis by (simp add: example_world_def)
qed

subsection \<open>Order of the calls\<close>

lemma not_before_prefix:
  assumes "prefix t s" and "not_before P Q s"
  shows "not_before P Q t"
proof -
  from assms(1) obtain r where s: "s = t @ r" by (auto simp: prefix_def)
  have "set (takeWhile (\<lambda>c. \<not> Q c) t) \<subseteq> set (takeWhile (\<lambda>c. \<not> Q c) (t @ r))"
    by (induction t) auto
  with assms(2) show ?thesis unfolding not_before_def s list_ex_iff by blast
qed

lemma filter_prefix: "prefix t s \<Longrightarrow> prefix (filter P t) (filter P s)"
  by (auto simp: prefix_def)

lemma script_literal:
  "script p cn ne mt env =
     [FindDotenv, SetKey ''cluster_name'' cn, GetAuth, WorkspaceFromConfig,
      NewExperiment ''torchvision'',
      MakeDirs ''./torchdetect'',
      Copy ''./scripts/coco_eval.py'' ''./torchdetect'',
      Copy ''./scripts/coco_utils.py'' ''./torchdetect'',
      Copy ''./scripts/engine.py'' ''./torchdetect'',
      Copy ''./scripts/transforms.py'' ''./torchdetect'',
      Copy ''./scripts/utils.py'' ''./torchdetect'',
      Copy ''./scripts/maskrcnn_model.py'' ''./torchdetect'',
      Copy ''./scripts/XMLDataset.py'' ''./torchdetect'',
      Copy ''./scripts/train.py'' ''./torchdetect'',
      GetDefaultDatastore,
      Upload ''./scripts/JPEGImages'' ''JPEGImages'' True,
      Upload ''./scripts/Annotations'' ''Annotations'' True,
      LookupCompute cn] @
     (if raises p (LookupCompute cn) = Some ComputeTargetException
      then [CreateCompute cn \<lparr>vm_size = ''STANDARD_NC6'', max_nodes = 8\<rparr>, WaitCompute cn]
      else []) @
     [GetStatus cn,
      GetKey ''image_name'', GetKey ''acr_server_name'', GetKey ''acr_username'',
      GetKey ''acr_password'',
      Submit (EstimatorJob
        (PyTorch (script_params (default_datastore p) ne) (ComputeTarget cn)
           (fst (image_of env)) (snd (image_of env)))),
      ShowRunDetails ScriptRun,
      GetDetails ScriptRun,
      WaitForCompletion ScriptRun,
      Submit (HyperDriveJob
        (hyperdrive_config
           (PyTorch (script_params_tune (default_datastore p) ne) (ComputeTarget cn)
              (fst (image_of env)) (snd (image_of env)))
           mt)),
      ShowRunDetails HyperDriveRun,
      WaitForCompletion HyperDriveRun,
      GetBestRun] @
     (case best_of MAXIMIZE (child_runs p) of
        None \<Rightarrow> []
      | Some b \<Rightarrow>
          [GetMetrics (ChildRun (fst b)), GetDetails (ChildRun (fst b)),
           RegisterModel (ChildRun (fst b)) ''torchvision_best_model''
             ''/outputs/model_latest.pth''])"
  by (simp add: script_def piece_defs)

lemma script_run_wait_after_submission:
  "not_before (\<lambda>c. c = WaitForCompletion ScriptRun) is_run_submission (script p cn ne mt env)"
  by (simp add: not_before_def script_def piece_defs)

lemma script_search_wait_after_submission:
  "not_before (\<lambda>c. c = WaitForCompletion HyperDriveRun) is_search_submission
     (script p cn ne mt env)"
  by (simp add: not_before_def script_def piece_defs)

lemma script_compute_wait_after_creation:
  "not_before (\<lambda>c. c = WaitCompute cn) is_provisioning (script p cn ne mt env)"
  by (simp add: not_before_def script_def piece_defs split: option.splits)

lemma script_waits:
  "filter is_wait (script p cn ne mt env) =
     (if raises p (LookupCompute cn) = Some ComputeTargetException
      then [WaitCompute cn] else []) @
     [WaitForCompletion ScriptRun, WaitForCompletion HyperDriveRun]"
  by (simp add: script_def piece_defs split: option.splits)

text \<open>
  Claim C7, as amended. Execution is strictly sequential: the calls of a run are the
  notebook's calls in program order, written out below, up to and including the first
  call that ends the run, and every call before the last one made had returned (or was
  the handled lookup). The three asynchronous operations block via an explicit wait
  call: the training run's wait_for_completion is not called before the run is submitted
  and the search is not submitted before it; the search's wait_for_completion is not
  called before the search is submitted, and the best run is not looked up, read or
  registered before it; the wait on a cluster is not called before the cluster is
  created, and when a cluster is created its status is not read and no job is submitted
  before that wait. These are the only wait calls: the uploads, the cluster lookup and
  the registration are synchronous calls with no wait call of their own.
\<close>

theorem strictly_sequential:
  "(\<exists>est cfg.
      emitted (workflow p cn ne mt) w =
        run_until (halts p cn)
          ([FindDotenv, SetKey ''cluster_name'' cn, GetAuth, WorkspaceFromConfig,
            NewExperiment ''torchvision'',
            MakeDirs ''./torchdetect'',
            Copy ''./scripts/coco_eval.py'' ''./torchdetect'',
            Copy ''./scripts/coco_utils.py'' ''./torchdetect'',
            Copy ''./scripts/engine.py'' ''./torchdetect'',
            Copy ''./scripts/transforms.py'' ''./torchdetect'',
            Copy ''./scripts/utils.py'' ''./torchdetect'',
            Copy ''./scripts/maskrcnn_model.py'' ''./torchdetect'',
            Copy ''./scripts/XMLDataset.py'' ''./torchdetect'',
            Copy ''./scripts/train.py'' ''./torchdetect'',
            GetDefaultDatastore,
            Upload ''./scripts/JPEGImages'' ''JPEGImages'' True,
            Upload ''./scripts/Annotations'' ''Annotations'' True,
            LookupCompute cn] @
           (if raises p (LookupCompute cn) = Some ComputeTargetException
            then [CreateCompute cn \<lparr>vm_size = ''STANDARD_NC6'', max_nodes = 8\<rparr>,
                  WaitCompute cn]
            else []) @
           [GetStatus cn,
            GetKey ''image_name'', GetKey ''acr_server_name'', GetKey ''acr_username'',
            GetKey ''acr_password'',
            Submit (EstimatorJob est),
            ShowRunDetails ScriptRun,
            GetDetails ScriptRun,
            WaitForCompletion ScriptRun,
            Submit (HyperDriveJob cfg),
            ShowRunDetails HyperDriveRun,
            WaitForCompletion HyperDriveRun,
            GetBestRun] @
           (case best_of MAXIMIZE (child_runs p) of
              None \<Rightarrow> []
            | Some b \<Rightarrow>
                [GetMetrics (ChildRun (fst b)), GetDetails (ChildRun (fst b)),
                 RegisterModel (ChildRun (fst b)) ''torchvision_best_model''
                   ''/outputs/model_latest.pth''])))
   \<and> list_all (\<lambda>c. \<not> halts p cn c) (butlast (emitted (workflow p cn ne mt) w))
   \<and> not_before (\<lambda>c. c = WaitForCompletion ScriptRun) is_run_submission
       (emitted (workflow p cn ne mt) w)
   \<and> never_before is_search_submission (WaitForCompletion ScriptRun)
       (emitted (workflow p cn ne mt) w)
   \<and> not_before (\<lambda>c. c = WaitForCompletion HyperDriveRun) is_search_submission
       (emitted (workflow p cn ne mt) w)
   \<and> never_before uses_best_run (WaitForCompletion HyperDriveRun)
       (emitted (workflow p cn ne mt) w)
   \<and> not_before (\<lambda>c. c = WaitCompute cn) is_provisioning
       (emitted (workflow p cn ne mt) w)
   \<and> (list_ex is_provisioning (emitted (workflow p cn ne mt) w) \<longrightarrow>
       never_before after_compute (WaitCompute cn) (emitted (workflow p cn ne mt) w))
   \<and> prefix (filter is_wait (emitted (workflow p cn ne mt) w))
       ((if raises p (LookupCompute cn) = Some ComputeTargetException
         then [WaitCompute cn] else []) @
        [WaitForCompletion ScriptRun, WaitForCompletion HyperDriveRun])"
proof -
  let ?tr = "emitted (workflow p cn ne mt) w"
  let ?s = "script p cn ne mt (dotenv w)"
  have pre: "prefix ?tr ?s" by (simp add: emitted_workflow prefix_run_until)
  have lit: "\<exists>est cfg.
      ?tr =
        run_until (halts p cn)
          ([FindDotenv, SetKey ''cluster_name'' cn, GetAuth, WorkspaceFromConfig,
            NewExperiment ''torchvision'',
            MakeDirs ''./torchdetect'',
            Copy ''./scripts/coco_eval.py'' ''./torchdetect'',
            Copy ''./scripts/coco_utils.py'' ''./torchdetect'',
            Copy ''./scripts/engine.py'' ''./torchdetect'',
            Copy ''./scripts/transforms.py'' ''./torchdetect'',
            Copy ''./scripts/utils.py'' ''./torchdetect'',
            Copy ''./scripts/maskrcnn_model.py'' ''./torchdetect'',
            Copy ''./scripts/XMLDataset.py'' ''./torchdetect'',
            Copy ''./scripts/train.py'' ''./torchdetect'',
            GetDefaultDatastore,
            Upload ''./scripts/JPEGImages'' ''JPEGImages'' True,
            Upload ''./scripts/Annotations'' ''Annotations'' True,
            LookupCompute cn] @
           (if raises p (LookupCompute cn) = Some ComputeTargetException
            then [CreateCompute cn \<lparr>vm_size = ''STANDARD_NC6'', max_nodes = 8\<rparr>,
                  WaitCompute cn]
            else []) @
           [GetStatus cn,
            GetKey ''image_name'', GetKey ''acr_server_name'', GetKey ''acr_username'',
            GetKey ''acr_password'',
            Submit (EstimatorJob est),
            ShowRunDetails ScriptRun,
            GetDetails ScriptRun,
            WaitForCompletion ScriptRun,
            Submit (HyperDriveJob cfg),
            ShowRunDetails HyperDriveRun,
            WaitForCompletion HyperDriveRun,
            GetBestRun] @
           (case best_of MAXIMIZE (child_runs p) of
              None \<Rightarrow> []
            | Some b \<Rightarrow>
                [GetMetrics (ChildRun (fst b)), GetDetails (ChildRun (fst b)),
                 RegisterModel (ChildRun (fst b)) ''torchvision_best_model''
                   ''/outputs/model_latest.pth'']))"
    unfolding emitted_workflow script_literal by (intro exI) (rule refl)
  have seq: "list_all (\<lambda>c. \<not> halts p cn c) (butlast ?tr)"
    by (simp add: emitted_workflow butlast_run_until)
  have a: "not_before (\<lambda>c. c = WaitForCompletion ScriptRun) is_run_submission ?tr"
    by (rule not_before_prefix [OF pre script_run_wait_after_submission])
  have b: "never_before is_search_submission (WaitForCompletion ScriptRun) ?tr"
    by (rule never_before_prefix [OF pre script_search_after_wait])
  have c: "not_before (\<lambda>c. c = WaitForCompletion HyperDriveRun) is_search_submission ?tr"
    by (rule not_before_prefix [OF pre script_search_wait_after_submission])
  have d: "never_before uses_best_run (WaitForCompletion HyperDriveRun) ?tr"
    by (rule never_before_prefix [OF pre script_best_after_wait])
  have e: "not_before (\<lambda>c. c = WaitCompute cn) is_provisioning ?tr"
    by (rule not_before_prefix [OF pre script_compute_wait_after_creation])
  have f: "never_before after_compute (WaitCompute cn) ?tr" if "list_ex is_provisioning ?tr"
  proof -
    from that have "raises p (LookupCompute cn) = Some ComputeTargetException"
      by (simp add: provisioning_iff)
    then show ?thesis by (rule never_before_prefix [OF pre script_compute_after_wait])
  qed
  have g: "prefix (filter is_wait ?tr)
       ((if raises p (LookupCompute cn) = Some ComputeTargetException
         then [WaitCompute cn] else []) @
        [WaitForCompletion ScriptRun, WaitForCompletion HyperDriveRun])"
    using filter_prefix [OF pre, of is_wait] by (simp only: script_waits)
  from lit seq a b c d e f g show ?thesis by blast
qed

lemma fresh_trace:
  "emitted (workflow fresh_platform ''gpu-cluster'' 1 1) example_world =
     script fresh_platform ''gpu-cluster'' 1 1 (dotenv example_world)"
proof -
  have "\<not> list_ex (halts fresh_platform ''gpu-cluster'')
      (script fresh_platform ''gpu-cluster'' 1 1 (dotenv example_world))"
    by (simp add: list_ex_iff fresh_no_halt)
  then show ?thesis by (simp add: emitted_workflow run_until_all)
qed

theorem strictly_sequential_witness:
  "list_ex is_provisioning (emitted (workflow fresh_platform ''gpu-cluster'' 1 1) example_world)
   \<and> never_before after_compute (WaitCompute ''gpu-cluster'')
       (emitted (workflow fresh_platform ''gpu-cluster'' 1 1) example_world)
   \<and> filter is_wait (emitted (workflow fresh_platform ''gpu-cluster'' 1 1) example_world) =
       [WaitCompute ''gpu-cluster'', WaitForCompletion ScriptRun,
        WaitForCompletion HyperDriveRun]
   \<and> list_ex is_run_submission
       (emitted (workflow fresh_platform ''gpu-cluster'' 1 1) example_world)
   \<and> list_ex is_search_submission
       (emitted (workflow fresh_platform ''gpu-cluster'' 1 1) example_world)
   \<and> list_ex uses_best_run
       (emitted (workflow fresh_platform ''gpu-cluster'' 1 1) example_world)"
proof -
  have h: "list_ex is_provisioning
      (emitted (workflow fresh_platform ''gpu-cluster'' 1 1) example_world)"
    unfolding fresh_trace by (simp add: script_def compute_calls_def fresh_platform_def)
  have waits: "filter is_wait (emitted (workflow fresh_platform ''gpu-cluster'' 1 1) example_world) =
       [WaitCompute ''gpu-cluster'', WaitForCompletion ScriptRun,
        WaitForCompletion HyperDriveRun]"
    unfolding fresh_trace by (simp add: script_waits fresh_platform_def)
  have more: "list_ex is_run_submission
       (emitted (workflow fresh_platform ''gpu-cluster'' 1 1) example_world)"
    "list_ex is_search_submission
       (emitted (workflow fresh_platform ''gpu-cluster'' 1 1) example_world)"
    "list_ex uses_best_run
       (emitted (workflow fresh_platform ''gpu-cluster'' 1 1) example_world)"
    unfolding fresh_trace
    by (simp_all add: script_def submit_calls_def tune_calls_def register_calls_def)
  from strictly_sequential [of fresh_platform "''gpu-cluster''" 1 1 example_world] h
  have "never_before after_compute (WaitCompute ''gpu-cluster'')
       (emitted (workflow fresh_platform ''gpu-cluster'' 1 1) example_world)"
    by blast
  with h waits more show ?thesis by blast
qed

text \<open>
  The general clause as the claim states it fails: in a run on which nothing raises, the
  uploads are followed by the submission of the training run with no wait call in
  between.
\<close>

theorem every_step_awaited_counterexample:
  "\<not> every_step_awaited (emitted (workflow example_platform ''gpu-cluster'' 1 1) example_world)"
proof -
  have "\<not> list_ex (halts example_platform ''gpu-cluster'')
      (script example_platform ''gpu-cluster'' 1 1 (dotenv example_world))"
    by (simp add: list_ex_iff example_no_halt)
  then have "emitted (workflow example_platform ''gpu-cluster'' 1 1) example_world =
      script example_platform ''gpu-cluster'' 1 1 (dotenv example_world)"
    by (simp add: emitted_workflow run_until_all)
  then show ?thesis
    by (simp add: every_step_awaited_def script_def piece_defs example_platform_def)
qed


subsection \<open>The .env file\<close>

lemma keys_written_append: "keys_written (xs @ ys) = keys_written xs @ keys_written ys"
  by (induction xs rule: keys_written.induct) auto

lemma keys_read_append: "keys_read (xs @ ys) = keys_read xs @ keys_read ys"
  by (induction xs rule: keys_read.induct) auto

lemma keys_read_prefix: "prefix t s \<Longrightarrow> prefix (keys_read t) (keys_read s)"
  by (auto simp: prefix_def keys_read_append)

lemma keys_written_prefix: "prefix t s \<Longrightarrow> prefix (keys_written t) (keys_written s)"
  by (auto simp: prefix_def keys_written_append)

lemma script_keys_read:
  "keys_read (script p cn ne mt env) =
     [''image_name'', ''acr_server_name'', ''acr_username'', ''acr_password'']"
  by (simp add: script_def piece_defs keys_read_append split: option.splits)

lemma keys_written_run_until:
  "keys_written xs = [] \<Longrightarrow> keys_written (run_until H xs) = []"
  using keys_written_prefix [OF prefix_run_until, of H xs] by simp

lemma workflow_keys_written:
  "keys_written (emitted (workflow p cn ne mt) w) =
     (if raises p FindDotenv = None then [''cluster_name''] else [])"
proof -
  let ?rest = "copy_calls @ upload_calls @ compute_calls p cn @ image_calls @
     submit_calls
       (PyTorch (script_params (default_datastore p) ne)
          (ComputeTarget cn) (fst (image_of (dotenv w))) (snd (image_of (dotenv w)))) @
     tune_calls
       (hyperdrive_config
          (PyTorch (script_params_tune (default_datastore p) ne)
             (ComputeTarget cn) (fst (image_of (dotenv w))) (snd (image_of (dotenv w))))
          mt) @
     register_calls p"
  have s: "script p cn ne mt (dotenv w) =
     FindDotenv # SetKey ''cluster_name'' cn #
       ([GetAuth, WorkspaceFromConfig, NewExperiment ''torchvision''] @ ?rest)"
    by (simp add: script_def configure_calls_def)
  have r: "keys_written
     (run_until (halts p cn) ([GetAuth, WorkspaceFromConfig, NewExperiment ''torchvision''] @ ?rest)) = []"
    by (rule keys_written_run_until)
       (simp add: keys_written_append piece_defs split: option.splits)
  show ?thesis
    unfolding emitted_workflow s using r by (simp add: halts_def split: option.splits)
qed

text \<open>
  Claim C10. The notebook writes one key of the .env file, cluster_name (none when
  find_dotenv raises, and the file stays as it was when find_dotenv or set_key raises).
  The keys image_name, acr_server_name, acr_username and acr_password have at the end of
  every run the value they had at the start, and they are the only keys read, in that
  order.
\<close>

theorem dotenv_frame:
  "dotenv (snd (workflow p cn ne mt w)) =
     (if raises p FindDotenv = None \<and> raises p (SetKey ''cluster_name'' cn) = None
      then (dotenv w)(''cluster_name'' \<mapsto> cn) else dotenv w)
   \<and> dotenv (snd (workflow p cn ne mt w)) ''image_name'' = dotenv w ''image_name''
   \<and> dotenv (snd (workflow p cn ne mt w)) ''acr_server_name'' = dotenv w ''acr_server_name''
   \<and> dotenv (snd (workflow p cn ne mt w)) ''acr_username'' = dotenv w ''acr_username''
   \<and> dotenv (snd (workflow p cn ne mt w)) ''acr_password'' = dotenv w ''acr_password''
   \<and> keys_written (emitted (workflow p cn ne mt) w) =
       (if raises p FindDotenv = None then [''cluster_name''] else [])
   \<and> prefix (keys_read (emitted (workflow p cn ne mt) w))
       [''image_name'', ''acr_server_name'', ''acr_username'', ''acr_password'']"
proof -
  have r: "prefix (keys_read (emitted (workflow p cn ne mt) w))
       [''image_name'', ''acr_server_name'', ''acr_username'', ''acr_password'']"
    using keys_read_prefix [OF prefix_run_until, of "halts p cn" "script p cn ne mt (dotenv w)"]
    by (simp add: emitted_workflow script_keys_read)
  show ?thesis
    using r by (simp add: workflow_dotenv workflow_keys_written)
qed

end
